theory Spec2Isabelle
  imports Complex_Main
begin

section \<open>Overview\<close>

text \<open>
  A shallow embedding of \<^verbatim>\<open>polarity/caster.py\<close>: the coercion engine
  \<^verbatim>\<open>attempt_cast\<close>, the temporal parser \<^verbatim>\<open>parse_date\<close> and
  \<^verbatim>\<open>parse_datetime\<close>, the casts of a row and of a table, and the reconciliation
  \<^verbatim>\<open>split_dataframe\<close>. A function that can raise returns a sum, with the exception on
  the left. What the repository takes from outside is made explicit:
  \<^item> the built-ins of the language on text, numbers and dates are defined here, from the
    behaviour of the interpreter;
  \<^item> the parsing functions of the standard library that vary with its version, and
    \<^verbatim>\<open>str\<close>, are parameters (\<open>pylib\<close>);
  \<^item> a schema of the validation library is its list of properties and its validation
    function (\<open>schema\<close>);
  \<^item> the table library is a table of typed columns and rows, with the filters and
    selections that \<^verbatim>\<open>split_dataframe\<close> uses.
\<close>

section \<open>Text primitives of the interpreter\<close>

text \<open>
  A text value is a \<^typ>\<open>string\<close>; every character is read as one code point in the
  range U+0000 .. U+00FF, so \<^const>\<open>length\<close> is the \<^verbatim>\<open>len\<close> of the source.
  The functions below are the built-ins of the language that \<^verbatim>\<open>caster.py\<close> calls on
  text: \<^verbatim>\<open>str.strip\<close>, \<^verbatim>\<open>str.lower\<close>, \<^verbatim>\<open>str.split\<close>, \<^verbatim>\<open>in\<close>,
  \<^verbatim>\<open>int(text)\<close> and \<^verbatim>\<open>float(text)\<close>.
\<close>

definition code :: "char \<Rightarrow> nat" where
  "code c = of_char c"

text \<open>White space as \<^verbatim>\<open>str.isspace\<close> sees it below U+0100.\<close>

definition is_space :: "char \<Rightarrow> bool" where
  "is_space c = (let n = code c in
     (9 \<le> n \<and> n \<le> 13) \<or> (28 \<le> n \<and> n \<le> 32) \<or> n = 133 \<or> n = 160)"

definition strip :: "string \<Rightarrow> string" where
  "strip s = rev (dropWhile is_space (rev (dropWhile is_space s)))"

text \<open>\<^verbatim>\<open>str.lower\<close> below U+0100: A-Z and the accented capitals move up by 32.\<close>

definition lower_char :: "char \<Rightarrow> char" where
  "lower_char c = (let n = code c in
     if (65 \<le> n \<and> n \<le> 90) \<or> (192 \<le> n \<and> n \<le> 222 \<and> n \<noteq> 215)
     then char_of (n + 32) else c)"

definition lower :: "string \<Rightarrow> string" where
  "lower s = map lower_char s"

definition is_digit :: "char \<Rightarrow> bool" where
  "is_digit c = (let n = code c in 48 \<le> n \<and> n \<le> 57)"

definition digit_val :: "char \<Rightarrow> nat" where
  "digit_val c = code c - 48"

definition nat_of_digits :: "string \<Rightarrow> nat" where
  "nat_of_digits ds = foldl (\<lambda>a c. 10 * a + digit_val c) 0 ds"

text \<open>\<^verbatim>\<open>value.split(sep)\<close> for a one-character separator: every occurrence cuts.\<close>

fun split_on :: "char \<Rightarrow> string \<Rightarrow> string list" where
  "split_on sep [] = [[]]"
| "split_on sep (c # cs) =
     (if c = sep then [] # split_on sep cs
      else (case split_on sep cs of
              [] \<Rightarrow> [[c]]
            | p # ps \<Rightarrow> (c # p) # ps))"

text \<open>
  Underscores in a numeric literal: each one must stand between two digits. The result is
  the text without them, or \<open>None\<close> where the interpreter rejects the literal.
\<close>

fun strip_underscores :: "char option \<Rightarrow> string \<Rightarrow> string option" where
  "strip_underscores prev [] =
     (if prev = Some (CHR ''_'') then None else Some [])"
| "strip_underscores prev (c # cs) =
     (if c = CHR ''_'' then
        (case prev of
           None \<Rightarrow> None
         | Some p \<Rightarrow> if is_digit p then strip_underscores (Some c) cs else None)
      else if prev = Some (CHR ''_'') \<and> \<not> is_digit c then None
      else map_option ((#) c) (strip_underscores (Some c) cs))"

text \<open>An optional sign; \<open>True\<close> is the minus sign.\<close>

fun parse_sign :: "string \<Rightarrow> bool \<times> string" where
  "parse_sign [] = (False, [])"
| "parse_sign (c # cs) =
     (if c = CHR ''-'' then (True, cs)
      else if c = CHR ''+'' then (False, cs)
      else (False, c # cs))"

text \<open>\<^verbatim>\<open>int(text)\<close> in base ten; \<open>None\<close> is the \<^verbatim>\<open>ValueError\<close>.\<close>

definition int_of_str :: "string \<Rightarrow> int option" where
  "int_of_str s =
     (case strip_underscores None (strip s) of
        None \<Rightarrow> None
      | Some t \<Rightarrow>
          (let (neg, ds) = parse_sign t in
           if ds \<noteq> [] \<and> list_all is_digit ds
           then Some (if neg then - int (nat_of_digits ds) else int (nat_of_digits ds))
           else None))"

section \<open>Floating-point values\<close>

text \<open>
  A float of the interpreter is an IEEE 754 binary64 value: a finite value is kept as the
  rational number it denotes (negative zero apart), next to the two infinities and NaN.
\<close>

datatype pyfloat = Finite rat | NegZero | PosInf | NegInf | NaN

definition pow2 :: "int \<Rightarrow> rat" where
  "pow2 k = (if 0 \<le> k then 2 ^ nat k else 1 / 2 ^ nat (- k))"

text \<open>Number of binary digits of a natural number.\<close>

fun bit_len :: "nat \<Rightarrow> nat" where
  "bit_len n = (if n = 0 then 0 else Suc (bit_len (n div 2)))"

declare bit_len.simps [simp del]

text \<open>
  Rounding to the nearest binary64 value, ties to even, is done on a fraction \<open>n / d\<close> of
  positive integers. \<open>ilog2 n d\<close> is the exponent \<open>e\<close> with
  \<open>2 ^ e \<le> n / d < 2 ^ (e + 1)\<close>.
\<close>

definition ilog2 :: "nat \<Rightarrow> nat \<Rightarrow> int" where
  "ilog2 n d = (let k = int (bit_len n) - int (bit_len d) in
     if (if 0 \<le> k then d * 2 ^ nat k \<le> n else d \<le> n * 2 ^ nat (- k))
     then k else k - 1)"

text \<open>The integer nearest to \<open>n / d\<close>, a tie going to the even neighbour.\<close>

definition round_half_even :: "nat \<Rightarrow> nat \<Rightarrow> nat" where
  "round_half_even n d = (let q = n div d; r = n mod d in
     if 2 * r < d then q
     else if d < 2 * r then q + 1
     else if even q then q else q + 1)"

text \<open>
  53 significant bits, the smallest quantum \<open>2 ^ -1074\<close>, and infinity from
  \<open>2 ^ 1024\<close> on: the result is the significand \<open>m\<close> and the exponent \<open>p\<close> of
  the rounded value \<open>m * 2 ^ p\<close>, or \<open>None\<close> for the overflow.
\<close>

definition round_pos :: "nat \<Rightarrow> nat \<Rightarrow> (nat \<times> int) option" where
  "round_pos n d = (let p = max (ilog2 n d - 52) (- 1074);
                        m = (if 0 \<le> p then round_half_even n (d * 2 ^ nat p)
                             else round_half_even (n * 2 ^ nat (- p)) d)
                    in if 971 < p \<or> (p = 971 \<and> 2 ^ 53 \<le> m) then None else Some (m, p))"

definition round_double :: "bool \<Rightarrow> nat \<Rightarrow> nat \<Rightarrow> pyfloat" where
  "round_double neg n d =
     (if n = 0 then (if neg then NegZero else Finite 0)
      else (case round_pos n d of
              None \<Rightarrow> if neg then NegInf else PosInf
            | Some (m, p) \<Rightarrow>
                if m = 0 then (if neg then NegZero else Finite 0)
                else Finite ((if neg then - of_nat m else of_nat m) * pow2 p)))"

text \<open>The exponent part of a float literal; the empty rest is exponent zero.\<close>

definition parse_exponent :: "string \<Rightarrow> int option" where
  "parse_exponent r =
     (case r of
        [] \<Rightarrow> Some 0
      | c # r' \<Rightarrow>
          if c = CHR ''e'' \<or> c = CHR ''E'' then
            (let (neg, ds) = parse_sign r' in
             if ds \<noteq> [] \<and> list_all is_digit ds
             then Some (if neg then - int (nat_of_digits ds) else int (nat_of_digits ds))
             else None)
          else None)"

text \<open>
  \<^verbatim>\<open>float(text)\<close>: white space is stripped, underscores are checked and dropped, then
  come a sign and either \<^verbatim>\<open>inf\<close>, \<^verbatim>\<open>infinity\<close>, \<^verbatim>\<open>nan\<close> in any case, or a decimal
  literal with at least one digit and an optional exponent. \<open>None\<close> is the
  \<^verbatim>\<open>ValueError\<close>.
\<close>

definition float_of_str :: "string \<Rightarrow> pyfloat option" where
  "float_of_str s =
     (case strip_underscores None (strip s) of
        None \<Rightarrow> None
      | Some t \<Rightarrow>
          (let (neg, b) = parse_sign t; lb = lower b in
           if lb = ''inf'' \<or> lb = ''infinity'' then Some (if neg then NegInf else PosInf)
           else if lb = ''nan'' then Some NaN
           else
             (let ip = takeWhile is_digit b;
                  r1 = dropWhile is_digit b;
                  (fp, r2) = (case r1 of
                                [] \<Rightarrow> ([], [])
                              | c # r \<Rightarrow> if c = CHR ''.''
                                         then (takeWhile is_digit r, dropWhile is_digit r)
                                         else ([], r1))
              in if ip = [] \<and> fp = [] then None
                 else (case parse_exponent r2 of
                         None \<Rightarrow> None
                       | Some ex \<Rightarrow>
                           (let m = nat_of_digits (ip @ fp);
                                k = ex - int (length fp)
                            in Some (if 0 \<le> k then round_double neg (m * 10 ^ nat k) 1
                                     else round_double neg m (10 ^ nat (- k))))))))"

text \<open>\<^verbatim>\<open>float.is_integer()\<close>, \<^verbatim>\<open>int(float)\<close>, \<^verbatim>\<open>math.isnan\<close>, \<^verbatim>\<open>bool(float)\<close>.\<close>

fun is_integer :: "pyfloat \<Rightarrow> bool" where
  "is_integer (Finite q) = (of_int \<lfloor>q\<rfloor> = q)"
| "is_integer NegZero = True"
| "is_integer _ = False"

text \<open>Truncation toward zero; the infinities and NaN raise (\<open>None\<close>).\<close>

fun int_of_float :: "pyfloat \<Rightarrow> int option" where
  "int_of_float (Finite q) = Some (if 0 \<le> q then \<lfloor>q\<rfloor> else - \<lfloor>- q\<rfloor>)"
| "int_of_float NegZero = Some 0"
| "int_of_float _ = None"

fun isnan :: "pyfloat \<Rightarrow> bool" where
  "isnan NaN = True"
| "isnan _ = False"

fun bool_of_float :: "pyfloat \<Rightarrow> bool" where
  "bool_of_float (Finite q) = (q \<noteq> 0)"
| "bool_of_float NegZero = False"
| "bool_of_float _ = True"

text \<open>\<^verbatim>\<open>float(int)\<close>: the nearest float, or \<open>None\<close> for the \<^verbatim>\<open>OverflowError\<close>.\<close>

definition float_of_int :: "int \<Rightarrow> pyfloat option" where
  "float_of_int n =
     (case round_double (n < 0) (nat \<bar>n\<bar>) 1 of
        PosInf \<Rightarrow> None
      | NegInf \<Rightarrow> None
      | f \<Rightarrow> Some f)"

section \<open>Values, dates and exceptions\<close>

text \<open>
  \<^verbatim>\<open>datetime.date\<close> and \<^verbatim>\<open>datetime.datetime\<close>. The offset of an aware datetime is
  kept in microseconds; a naive one has none.
\<close>

record pydate =
  d_year :: int
  d_month :: int
  d_day :: int

record pydatetime =
  dt_date :: pydate
  dt_hour :: int
  dt_minute :: int
  dt_second :: int
  dt_microsecond :: int
  dt_utcoffset :: "int option"

text \<open>
  The values a table cell holds: null, text, integer, float, boolean, date and datetime.
  A boolean is also an integer for \<^verbatim>\<open>isinstance\<close>, and a datetime is also a date.
\<close>

datatype pyval =
    VNone
  | VStr string
  | VInt int
  | VFloat pyfloat
  | VBool bool
  | VDate pydate
  | VDatetime pydatetime

datatype table_side = DfNew | DfDb

text \<open>
  The exceptions that can leave a function of \<^verbatim>\<open>caster.py\<close>. The first six are the
  built-in classes. \<open>SchemaNotFound\<close> is the \<^verbatim>\<open>KeyError\<close> of an unknown schema name;
  \<open>EmptyPrimaryKeyList\<close>, \<open>MissingPrimaryKeyColumn\<close> and \<open>NullPrimaryKeyValue\<close> are
  the three \<^verbatim>\<open>ValueError\<close>s of \<^verbatim>\<open>split_dataframe\<close>, told apart by their messages
  (table, column and null count); \<open>RowValidationFailure\<close> is the \<^verbatim>\<open>ValueError\<close> that
  \<^verbatim>\<open>cast_row\<close> raises; the last two are raised by the table library.
\<close>

datatype pyexc =
    ValueError
  | TypeError
  | OverflowError
  | IndexError
  | UnboundLocalError
  | RecursionError
  | SchemaNotFound string
  | EmptyPrimaryKeyList
  | MissingPrimaryKeyColumn table_side string
  | NullPrimaryKeyValue table_side string nat
  | RowValidationFailure
  | ColumnNotFoundError string
  | DuplicateError string

text \<open>What \<^verbatim>\<open>except ValueError\<close> catches.\<close>

fun is_ValueError :: "pyexc \<Rightarrow> bool" where
  "is_ValueError ValueError = True"
| "is_ValueError EmptyPrimaryKeyList = True"
| "is_ValueError (MissingPrimaryKeyColumn _ _) = True"
| "is_ValueError (NullPrimaryKeyValue _ _ _) = True"
| "is_ValueError RowValidationFailure = True"
| "is_ValueError _ = False"

definition is_leap :: "int \<Rightarrow> bool" where
  "is_leap y = (y mod 4 = 0 \<and> (y mod 100 \<noteq> 0 \<or> y mod 400 = 0))"

definition days_in_month :: "int \<Rightarrow> int \<Rightarrow> int" where
  "days_in_month y m =
     (if m = 2 then (if is_leap y then 29 else 28)
      else if m = 4 \<or> m = 6 \<or> m = 9 \<or> m = 11 then 30 else 31)"

definition valid_date :: "int \<Rightarrow> int \<Rightarrow> int \<Rightarrow> bool" where
  "valid_date y m d = (1 \<le> y \<and> y \<le> 9999 \<and> 1 \<le> m \<and> m \<le> 12 \<and> 1 \<le> d \<and> d \<le> days_in_month y m)"

text \<open>An argument that a C \<^verbatim>\<open>int\<close> holds.\<close>

definition fits_c_int :: "int \<Rightarrow> bool" where
  "fits_c_int n = (- 2147483648 \<le> n \<and> n \<le> 2147483647)"

text \<open>
  The constructor \<^verbatim>\<open>date(year, month, day)\<close>. The interpreter first converts the three
  arguments to C \<^verbatim>\<open>int\<close> and raises \<^verbatim>\<open>OverflowError\<close> if one does not fit; only then
  does it check the calendar ranges and raise \<^verbatim>\<open>ValueError\<close>.
\<close>

definition mk_date :: "int \<Rightarrow> int \<Rightarrow> int \<Rightarrow> pyexc + pydate" where
  "mk_date y m d =
     (if \<not> (fits_c_int y \<and> fits_c_int m \<and> fits_c_int d) then Inl OverflowError
      else if valid_date y m d then Inr \<lparr>d_year = y, d_month = m, d_day = d\<rparr>
      else Inl ValueError)"

text \<open>\<^verbatim>\<open>date(int(a), int(b), int(c))\<close>: the three conversions run left to right.\<close>

definition date_of_parts :: "string \<Rightarrow> string \<Rightarrow> string \<Rightarrow> pyexc + pydate" where
  "date_of_parts a b c =
     (case int_of_str a of
        None \<Rightarrow> Inl ValueError
      | Some y \<Rightarrow>
          (case int_of_str b of
             None \<Rightarrow> Inl ValueError
           | Some m \<Rightarrow>
               (case int_of_str c of
                  None \<Rightarrow> Inl ValueError
                | Some d \<Rightarrow> mk_date y m d)))"

section \<open>The manual slash/dash fallback of \<^verbatim>\<open>parse_date\<close>\<close>

text \<open>
  A stage of the parser ends in one of three ways: it returns a value (\<open>Inr (Some v)\<close>),
  it falls through to the next stage (\<open>Inr None\<close>), or an exception leaves it
  (\<open>Inl e\<close>). \<open>swallow es\<close> is a handler \<^verbatim>\<open>except es: pass\<close> around a stage.
\<close>

definition swallow :: "pyexc list \<Rightarrow> pyexc + 'a option \<Rightarrow> pyexc + 'a option" where
  "swallow es r =
     (case r of
        Inl e \<Rightarrow> if e \<in> set es then Inr None else Inl e
      | Inr v \<Rightarrow> Inr v)"

definition returning :: "pyexc + 'a \<Rightarrow> pyexc + 'a option" where
  "returning r = (case r of Inl e \<Rightarrow> Inl e | Inr v \<Rightarrow> Inr (Some v))"

text \<open>
  The \<^verbatim>\<open>try\<close> block under \<^verbatim>\<open>if len(parts) == 3\<close> (lines 181-194 and 199-212): year
  first when the first part has four characters; otherwise, when the last part has four,
  month first and, on a \<^verbatim>\<open>ValueError\<close>, day first.
\<close>

definition manual_try :: "string \<Rightarrow> string \<Rightarrow> string \<Rightarrow> pyexc + pydate option" where
  "manual_try p0 p1 p2 =
     swallow [ValueError, IndexError]
       (if length p0 = 4 then returning (date_of_parts p0 p1 p2)
        else if length p2 = 4 then
          (case date_of_parts p2 p0 p1 of
             Inr d \<Rightarrow> Inr (Some d)
           | Inl e \<Rightarrow>
               if e = ValueError then swallow [ValueError] (returning (date_of_parts p2 p1 p0))
               else Inl e)
        else Inr None)"

definition manual_sep :: "char \<Rightarrow> string \<Rightarrow> pyexc + pydate option" where
  "manual_sep sep v =
     (if sep \<in> set v then
        (case split_on sep v of
           [p0, p1, p2] \<Rightarrow> manual_try p0 p1 p2
         | _ \<Rightarrow> Inr None)
      else Inr None)"

text \<open>Lines 176-212: the slash block, then the dash block.\<close>

definition manual_fallback :: "string \<Rightarrow> pyexc + pydate option" where
  "manual_fallback v =
     (case manual_sep (CHR ''/'') v of
        Inr None \<Rightarrow> manual_sep (CHR ''-'') v
      | r \<Rightarrow> r)"

section \<open>The pattern tables\<close>

text \<open>
  The regular expressions of \<^verbatim>\<open>date_patterns\<close> and \<^verbatim>\<open>datetime_patterns\<close> are
  sequences of three kinds of atoms: between \<open>m\<close> and \<open>n\<close> decimal digits, one given
  character, and one character out of a set. \<^verbatim>\<open>re.match\<close> anchors the expression at the
  start, and the closing \<^verbatim>\<open>$\<close> matches at the end of the text or before a final
  newline.
\<close>

datatype atom = Digits nat nat | Lit char | OneOf "char list"

fun match_atoms :: "atom list \<Rightarrow> string \<Rightarrow> bool" where
  "match_atoms [] s = (s = [] \<or> s = [CHR 0x0A])"
| "match_atoms (Digits m n # as) s =
     list_ex (\<lambda>k. k \<le> length s \<and> list_all is_digit (take k s) \<and> match_atoms as (drop k s))
       [m ..< Suc n]"
| "match_atoms (Lit c # as) s =
     (case s of [] \<Rightarrow> False | x # xs \<Rightarrow> x = c \<and> match_atoms as xs)"
| "match_atoms (OneOf cs # as) s =
     (case s of [] \<Rightarrow> False | x # xs \<Rightarrow> x \<in> set cs \<and> match_atoms as xs)"

definition d4 :: atom where "d4 = Digits 4 4"
definition d2 :: atom where "d2 = Digits 2 2"
definition d12 :: atom where "d12 = Digits 1 2"

definition sep3 :: "atom \<Rightarrow> char \<Rightarrow> atom \<Rightarrow> atom \<Rightarrow> atom list" where
  "sep3 a c b e = [a, Lit c, b, Lit c, e]"

definition hms :: "atom \<Rightarrow> atom list" where
  "hms h = [h, Lit (CHR '':''), d2, Lit (CHR '':''), d2]"

text \<open>Lines 13-27, in the order of the source.\<close>

definition date_patterns :: "(atom list \<times> string) list" where
  "date_patterns =
     [(sep3 d4 (CHR ''-'') d2 d2, ''%Y-%m-%d''),
      (sep3 d4 (CHR ''/'') d2 d2, ''%Y/%m/%d''),
      (sep3 d12 (CHR ''/'') d12 d4, ''%m/%d/%Y''),
      (sep3 d12 (CHR ''-'') d12 d4, ''%m-%d-%Y''),
      (sep3 d12 (CHR ''/'') d12 d2, ''%m/%d/%y''),
      (sep3 d12 (CHR ''-'') d12 d2, ''%m-%d-%y''),
      (sep3 d12 (CHR ''/'') d12 d4, ''%d/%m/%Y''),
      (sep3 d12 (CHR ''-'') d12 d4, ''%d-%m-%Y''),
      (sep3 d12 (CHR ''/'') d12 d2, ''%d/%m/%y''),
      (sep3 d12 (CHR ''-'') d12 d2, ''%d-%m-%y'')]"

text \<open>Lines 30-43; the third entry has no format (\<open>None\<close>).\<close>

definition datetime_patterns :: "(atom list \<times> string option) list" where
  "datetime_patterns =
     [(sep3 d4 (CHR ''-'') d2 d2 @ [Lit (CHR ''T'')] @ hms d2 @ [Lit (CHR ''Z'')],
         Some ''%Y-%m-%dT%H:%M:%SZ''),
      (sep3 d4 (CHR ''-'') d2 d2 @ [Lit (CHR ''T'')] @ hms d2
         @ [OneOf ''-+'', d2, Lit (CHR '':''), d2],
         Some ''%Y-%m-%dT%H:%M:%S%z''),
      (sep3 d4 (CHR ''-'') d2 d2 @ [Lit (CHR ''T'')] @ hms d2 @ [OneOf ''-+'', d4],
         None),
      (sep3 d4 (CHR ''-'') d2 d2 @ [Lit (CHR '' '')] @ hms d2, Some ''%Y-%m-%d %H:%M:%S''),
      (sep3 d4 (CHR ''/'') d2 d2 @ [Lit (CHR '' '')] @ hms d2, Some ''%Y/%m/%d %H:%M:%S''),
      (sep3 d12 (CHR ''/'') d12 d4 @ [Lit (CHR '' '')] @ hms d12
         @ [Lit (CHR '' ''), OneOf ''AP'', Lit (CHR ''M'')],
         Some ''%m/%d/%Y %I:%M:%S %p''),
      (sep3 d12 (CHR ''/'') d12 d4 @ [Lit (CHR '' '')] @ hms d2, Some ''%m/%d/%Y %H:%M:%S''),
      (sep3 d12 (CHR ''/'') d12 d4 @ [Lit (CHR '' '')] @ hms d2, Some ''%d/%m/%Y %H:%M:%S''),
      (sep3 d12 (CHR ''-'') d12 d4 @ [Lit (CHR '' '')] @ hms d2, Some ''%d-%m-%Y %H:%M:%S'')]"

text \<open>
  The search for a sign and four digits at the end of the text (lines 243 and 267), and the
  text with a colon put between hours and minutes (lines 245-247 and 269-270).
\<close>

definition search_tz :: "string \<Rightarrow> (char \<times> string \<times> string) option" where
  "search_tz v =
     (let w = (if v \<noteq> [] \<and> last v = CHR 0x0A then butlast v else v);
          t = drop (length w - 5) w
      in case t of
           [sg, h1, h2, m1, m2] \<Rightarrow>
             if (sg = CHR ''-'' \<or> sg = CHR ''+'') \<and> list_all is_digit [h1, h2, m1, m2]
             then Some (sg, [h1, h2], [m1, m2]) else None
         | _ \<Rightarrow> None)"

definition fix_tz :: "string \<Rightarrow> char \<times> string \<times> string \<Rightarrow> string" where
  "fix_tz v m = (case m of (sg, hours, minutes) \<Rightarrow>
     take (length v - 5) v @ [sg] @ hours @ '':'' @ minutes)"

section \<open>The standard library\<close>

text \<open>
  The functions of the standard library whose results depend on the interpreter's version
  or locale are parameters of the model: \<^verbatim>\<open>str(value)\<close>, \<^verbatim>\<open>date.fromisoformat\<close>,
  \<^verbatim>\<open>datetime.fromisoformat\<close> and \<^verbatim>\<open>datetime.strptime(value, format)\<close>, where
  \<open>None\<close> is their \<^verbatim>\<open>ValueError\<close>, and the depth of recursion the interpreter allows.
\<close>

record pylib =
  lib_str :: "pyval \<Rightarrow> string"
  lib_date_fromisoformat :: "string \<Rightarrow> pydate option"
  lib_datetime_fromisoformat :: "string \<Rightarrow> pydatetime option"
  lib_strptime :: "string \<Rightarrow> string \<Rightarrow> pydatetime option"
  lib_recursion_limit :: nat

definition raising :: "'a option \<Rightarrow> pyexc + 'a" where
  "raising x = (case x of None \<Rightarrow> Inl ValueError | Some v \<Rightarrow> Inr v)"

text \<open>\<^verbatim>\<open>value.split(sep)[i]\<close>.\<close>

definition part :: "char \<Rightarrow> nat \<Rightarrow> string \<Rightarrow> pyexc + string" where
  "part sep i v = (let ps = split_on sep v in
     if i < length ps then Inr (ps ! i) else Inl IndexError)"

text \<open>\<^verbatim>\<open>value.find(c, start)\<close>.\<close>

definition find_from :: "char \<Rightarrow> nat \<Rightarrow> string \<Rightarrow> int" where
  "find_from c start v = (let r = drop start v in
     if c \<in> set r then int start + int (length (takeWhile (\<lambda>x. x \<noteq> c) r)) else - 1)"

text \<open>\<^verbatim>\<open>value.replace('Z', '+00:00')\<close>.\<close>

definition replace_Z :: "string \<Rightarrow> string" where
  "replace_Z v = concat (map (\<lambda>c. if c = CHR ''Z'' then ''+00:00'' else [c]) v)"

text \<open>\<^verbatim>\<open>datetime.combine(d, datetime.min.time())\<close>.\<close>

definition at_midnight :: "pydate \<Rightarrow> pydatetime" where
  "at_midnight d = \<lparr>dt_date = d, dt_hour = 0, dt_minute = 0, dt_second = 0,
                     dt_microsecond = 0, dt_utcoffset = None\<rparr>"

text \<open>The constructor \<^verbatim>\<open>datetime(year, month, day, hour, minute, second)\<close>.\<close>

definition mk_datetime :: "int \<Rightarrow> int \<Rightarrow> int \<Rightarrow> int \<Rightarrow> int \<Rightarrow> int \<Rightarrow> pyexc + pydatetime" where
  "mk_datetime y mo d h mi s =
     (if \<not> list_all fits_c_int [y, mo, d, h, mi, s] then Inl OverflowError
      else if valid_date y mo d \<and> 0 \<le> h \<and> h \<le> 23 \<and> 0 \<le> mi \<and> mi \<le> 59 \<and> 0 \<le> s \<and> s \<le> 59
      then Inr \<lparr>dt_date = \<lparr>d_year = y, d_month = mo, d_day = d\<rparr>, dt_hour = h,
                 dt_minute = mi, dt_second = s, dt_microsecond = 0, dt_utcoffset = None\<rparr>
      else Inl ValueError)"

section \<open>The temporal parser\<close>

text \<open>Lines 149-165 of \<^verbatim>\<open>parse_date\<close>: the ISO fast path.\<close>

definition date_fast_path :: "pylib \<Rightarrow> string \<Rightarrow> pyexc + pydate option" where
  "date_fast_path L v =
     swallow [ValueError, IndexError]
       (if CHR ''T'' \<in> set v then
          (case part (CHR ''T'') 0 v of
             Inl e \<Rightarrow> Inl e
           | Inr date_part \<Rightarrow> returning (raising (lib_date_fromisoformat L date_part)))
        else if CHR '' '' \<in> set v then
          (case part (CHR '' '') 0 v of
             Inl e \<Rightarrow> Inl e
           | Inr date_part \<Rightarrow>
               if CHR ''-'' \<in> set date_part
               then returning (raising (lib_date_fromisoformat L date_part))
               else if CHR ''/'' \<in> set date_part then
                 (case split_on (CHR ''/'') date_part of
                    [a, b, c] \<Rightarrow> returning (date_of_parts a b c)
                  | _ \<Rightarrow> Inl ValueError)
               else Inr None)
        else returning (raising (lib_date_fromisoformat L v)))"

text \<open>Lines 168-174: the first pattern that matches and parses wins.\<close>

fun date_pattern_stage :: "pylib \<Rightarrow> string \<Rightarrow> (atom list \<times> string) list \<Rightarrow> pydate option" where
  "date_pattern_stage L v [] = None"
| "date_pattern_stage L v ((pattern, format_str) # ps) =
     (if match_atoms pattern v then
        (case lib_strptime L v format_str of
           Some dt \<Rightarrow> Some (dt_date dt)
         | None \<Rightarrow> date_pattern_stage L v ps)
      else date_pattern_stage L v ps)"

text \<open>Lines 234-261 of \<^verbatim>\<open>parse_datetime\<close>: ISO text with and without a time zone.\<close>

definition datetime_fast_path :: "pylib \<Rightarrow> string \<Rightarrow> pydatetime option" where
  "datetime_fast_path L v =
     (if CHR ''T'' \<in> set v then
        (if v \<noteq> [] \<and> last v = CHR ''Z'' then lib_datetime_fromisoformat L (replace_Z v)
         else if CHR ''+'' \<in> set v
                 \<or> (CHR ''-'' \<in> set v
                     \<and> find_from (CHR ''T'') 0 v
                         < find_from (CHR ''-'') (nat (find_from (CHR ''T'') 0 v)) v) then
           (case lib_datetime_fromisoformat L v of
              Some dt \<Rightarrow> Some dt
            | None \<Rightarrow>
                (case search_tz v of
                   Some m \<Rightarrow> lib_datetime_fromisoformat L (fix_tz v m)
                 | None \<Rightarrow> None))
         else lib_datetime_fromisoformat L v)
      else lib_datetime_fromisoformat L v)"

text \<open>Lines 264-279.\<close>

fun datetime_pattern_stage ::
  "pylib \<Rightarrow> string \<Rightarrow> (atom list \<times> string option) list \<Rightarrow> pydatetime option" where
  "datetime_pattern_stage L v [] = None"
| "datetime_pattern_stage L v ((pattern, format_str) # ps) =
     (if match_atoms pattern v then
        (case format_str of
           None \<Rightarrow>
             (case search_tz v of
                Some m \<Rightarrow>
                  (case lib_datetime_fromisoformat L (fix_tz v m) of
                     Some dt \<Rightarrow> Some dt
                   | None \<Rightarrow> datetime_pattern_stage L v ps)
              | None \<Rightarrow> datetime_pattern_stage L v ps)
         | Some f \<Rightarrow>
             (case lib_strptime L v f of
                Some dt \<Rightarrow> Some dt
              | None \<Rightarrow> datetime_pattern_stage L v ps))
      else datetime_pattern_stage L v ps)"

text \<open>
  Lines 287-313: the manual parsing at the end of \<^verbatim>\<open>parse_datetime\<close>. The date \<open>d\<close>
  stays unbound when neither the first nor the last part has four characters; reading it
  then raises \<^verbatim>\<open>UnboundLocalError\<close>, after the time of day has been parsed.
\<close>

definition manual_time :: "string \<Rightarrow> pyexc + int \<times> int \<times> int" where
  "manual_time time_part =
     (if CHR '':'' \<in> set time_part then
        (let tp = split_on (CHR '':'') time_part in
         case (if 0 < length tp then raising (int_of_str (tp ! 0)) else Inl IndexError) of
           Inl e \<Rightarrow> Inl e
         | Inr h \<Rightarrow>
             (case (if 1 < length tp then raising (int_of_str (tp ! 1)) else Inl IndexError) of
                Inl e \<Rightarrow> Inl e
              | Inr m \<Rightarrow>
                  if 2 < length tp then
                    (case raising (int_of_str (tp ! 2)) of
                       Inl e \<Rightarrow> Inl e
                     | Inr s \<Rightarrow> Inr (h, m, s))
                  else Inr (h, m, 0)))
      else Inr (0, 0, 0))"

definition manual_datetime_try :: "string \<Rightarrow> string \<Rightarrow> string \<Rightarrow> string \<Rightarrow> pyexc + pydatetime option" where
  "manual_datetime_try p0 p1 p2 time_part =
     swallow [ValueError, IndexError]
       (case (if length p0 = 4 then returning (date_of_parts p0 p1 p2)
              else if length p2 = 4 then
                (case date_of_parts p2 p0 p1 of
                   Inr d \<Rightarrow> Inr (Some d)
                 | Inl e \<Rightarrow> if e = ValueError then returning (date_of_parts p2 p1 p0) else Inl e)
              else Inr None) of
          Inl e \<Rightarrow> Inl e
        | Inr d \<Rightarrow>
            (case manual_time time_part of
               Inl e \<Rightarrow> Inl e
             | Inr (h, m, s) \<Rightarrow>
                 (case d of
                    None \<Rightarrow> Inl UnboundLocalError
                  | Some d' \<Rightarrow> returning (mk_datetime (d_year d') (d_month d') (d_day d') h m s))))"

definition manual_datetime :: "string \<Rightarrow> pyexc + pydatetime option" where
  "manual_datetime v =
     (if CHR ''/'' \<in> set v then
        (case (if CHR '' '' \<in> set v then part (CHR '' '') 0 v else Inr v) of
           Inl e \<Rightarrow> Inl e
         | Inr date_part \<Rightarrow>
             (case (if CHR '' '' \<in> set v then part (CHR '' '') 1 v else Inr ''00:00:00'') of
                Inl e \<Rightarrow> Inl e
              | Inr time_part \<Rightarrow>
                  (case split_on (CHR ''/'') date_part of
                     [p0, p1, p2] \<Rightarrow> manual_datetime_try p0 p1 p2 time_part
                   | _ \<Rightarrow> Inr None)))
      else Inr None)"

text \<open>
  \<^verbatim>\<open>parse_date\<close> and \<^verbatim>\<open>parse_datetime\<close> on text. Each calls the other on the same
  text when its own stages fail (lines 215 and 282), so the first argument counts the calls
  the interpreter still allows: at zero the call raises \<^verbatim>\<open>RecursionError\<close>, which no
  handler of \<^verbatim>\<open>caster.py\<close> catches.
\<close>

fun parse_date_str :: "nat \<Rightarrow> pylib \<Rightarrow> string \<Rightarrow> pyexc + pydate option"
  and parse_datetime_str :: "nat \<Rightarrow> pylib \<Rightarrow> string \<Rightarrow> pyexc + pydatetime option" where
  "parse_date_str 0 L v = Inl RecursionError"
| "parse_date_str (Suc n) L v =
     (case date_fast_path L v of
        Inl e \<Rightarrow> Inl e
      | Inr (Some d) \<Rightarrow> Inr (Some d)
      | Inr None \<Rightarrow>
          (case date_pattern_stage L v date_patterns of
             Some d \<Rightarrow> Inr (Some d)
           | None \<Rightarrow>
               (case manual_fallback v of
                  Inl e \<Rightarrow> Inl e
                | Inr (Some d) \<Rightarrow> Inr (Some d)
                | Inr None \<Rightarrow>
                    (case parse_datetime_str n L v of
                       Inl e \<Rightarrow> Inl e
                     | Inr (Some dt) \<Rightarrow> Inr (Some (dt_date dt))
                     | Inr None \<Rightarrow> Inr None))))"
| "parse_datetime_str 0 L v = Inl RecursionError"
| "parse_datetime_str (Suc n) L v =
     (case datetime_fast_path L v of
        Some dt \<Rightarrow> Inr (Some dt)
      | None \<Rightarrow>
          (case datetime_pattern_stage L v datetime_patterns of
             Some dt \<Rightarrow> Inr (Some dt)
           | None \<Rightarrow>
               (case parse_date_str n L v of
                  Inl e \<Rightarrow> Inl e
                | Inr (Some d) \<Rightarrow> Inr (Some (at_midnight d))
                | Inr None \<Rightarrow> manual_datetime v)))"

text \<open>
  The two entry points on any value (lines 136-147 and 221-232). A datetime is an instance
  of \<^verbatim>\<open>date\<close>, so \<^verbatim>\<open>parse_date\<close> returns it as it is on line 142.
\<close>

definition parse_date :: "pylib \<Rightarrow> pyval \<Rightarrow> pyexc + pyval" where
  "parse_date L v =
     (case v of
        VNone \<Rightarrow> Inr VNone
      | VDate d \<Rightarrow> Inr v
      | VDatetime dt \<Rightarrow> Inr v
      | VStr s \<Rightarrow>
          (case parse_date_str (lib_recursion_limit L) L s of
             Inl e \<Rightarrow> Inl e
           | Inr (Some d) \<Rightarrow> Inr (VDate d)
           | Inr None \<Rightarrow> Inr VNone)
      | _ \<Rightarrow> Inr VNone)"

definition parse_datetime :: "pylib \<Rightarrow> pyval \<Rightarrow> pyexc + pyval" where
  "parse_datetime L v =
     (case v of
        VNone \<Rightarrow> Inr VNone
      | VDatetime dt \<Rightarrow> Inr v
      | VDate d \<Rightarrow> Inr (VDatetime (at_midnight d))
      | VStr s \<Rightarrow>
          (case parse_datetime_str (lib_recursion_limit L) L s of
             Inl e \<Rightarrow> Inl e
           | Inr (Some dt) \<Rightarrow> Inr (VDatetime dt)
           | Inr None \<Rightarrow> Inr VNone)
      | _ \<Rightarrow> Inr VNone)"

section \<open>The coercion engine: \<^verbatim>\<open>attempt_cast\<close>\<close>

text \<open>The target types that \<^verbatim>\<open>cast_row\<close> passes to \<^verbatim>\<open>attempt_cast\<close>.\<close>

datatype target = TInt | TFloat | TStr | TBool | TDate | TDatetime

text \<open>\<^verbatim>\<open>isinstance(value, target_type)\<close>, with the two subclass relations.\<close>

definition isinstance :: "pyval \<Rightarrow> target \<Rightarrow> bool" where
  "isinstance v t =
     (case t of
        TInt \<Rightarrow> (case v of VInt _ \<Rightarrow> True | VBool _ \<Rightarrow> True | _ \<Rightarrow> False)
      | TFloat \<Rightarrow> (case v of VFloat _ \<Rightarrow> True | _ \<Rightarrow> False)
      | TStr \<Rightarrow> (case v of VStr _ \<Rightarrow> True | _ \<Rightarrow> False)
      | TBool \<Rightarrow> (case v of VBool _ \<Rightarrow> True | _ \<Rightarrow> False)
      | TDate \<Rightarrow> (case v of VDate _ \<Rightarrow> True | VDatetime _ \<Rightarrow> True | _ \<Rightarrow> False)
      | TDatetime \<Rightarrow> (case v of VDatetime _ \<Rightarrow> True | _ \<Rightarrow> False))"

text \<open>The built-ins \<^verbatim>\<open>int(value)\<close>, \<^verbatim>\<open>float(value)\<close> and \<^verbatim>\<open>bool(value)\<close>.\<close>

fun py_int :: "pyval \<Rightarrow> pyexc + int" where
  "py_int (VInt n) = Inr n"
| "py_int (VBool b) = Inr (if b then 1 else 0)"
| "py_int (VStr s) = raising (int_of_str s)"
| "py_int (VFloat f) =
     (case int_of_float f of
        Some n \<Rightarrow> Inr n
      | None \<Rightarrow> if isnan f then Inl ValueError else Inl OverflowError)"
| "py_int _ = Inl TypeError"

fun py_float :: "pyval \<Rightarrow> pyexc + pyfloat" where
  "py_float (VFloat f) = Inr f"
| "py_float (VStr s) = raising (float_of_str s)"
| "py_float (VInt n) = (case float_of_int n of None \<Rightarrow> Inl OverflowError | Some f \<Rightarrow> Inr f)"
| "py_float (VBool b) = Inr (Finite (if b then 1 else 0))"
| "py_float _ = Inl TypeError"

fun py_bool :: "pyval \<Rightarrow> bool" where
  "py_bool VNone = False"
| "py_bool (VStr s) = (s \<noteq> [])"
| "py_bool (VInt n) = (n \<noteq> 0)"
| "py_bool (VFloat f) = bool_of_float f"
| "py_bool (VBool b) = b"
| "py_bool (VDate _) = True"
| "py_bool (VDatetime _) = True"

text \<open>Lines 89-102: the integer target.\<close>

definition cast_int :: "pyval \<Rightarrow> pyexc + pyval" where
  "cast_int v =
     (case v of
        VStr s \<Rightarrow>
          (case float_of_str s of
             None \<Rightarrow> Inr VNone
           | Some float_val \<Rightarrow>
               if is_integer float_val
               then (case py_int (VFloat float_val) of Inl e \<Rightarrow> Inl e | Inr n \<Rightarrow> Inr (VInt n))
               else Inr VNone)
      | VFloat f \<Rightarrow>
          if is_integer f
          then (case py_int v of Inl e \<Rightarrow> Inl e | Inr n \<Rightarrow> Inr (VInt n))
          else Inr VNone
      | _ \<Rightarrow> (case py_int v of Inl e \<Rightarrow> Inl e | Inr n \<Rightarrow> Inr (VInt n)))"

text \<open>The two word lists of lines 113 and 115.\<close>

definition true_words :: "string list" where
  "true_words = [''true'', ''yes'', ''1'', ''t'', ''y'']"

definition false_words :: "string list" where
  "false_words = [''false'', ''no'', ''0'', ''f'', ''n'', []]"

text \<open>Lines 110-122: the boolean target.\<close>

definition cast_bool :: "pyval \<Rightarrow> pyexc + pyval" where
  "cast_bool v =
     (case v of
        VStr s \<Rightarrow>
          (let value_lower = strip (lower s) in
           if value_lower \<in> set true_words then Inr (VBool True)
           else if value_lower \<in> set false_words then Inr (VBool False)
           else Inr (VBool (py_bool (VStr value_lower))))
      | VInt n \<Rightarrow> Inr (VBool (py_bool v))
      | VFloat f \<Rightarrow> if isnan f then Inr VNone else Inr (VBool (py_bool v))
      | VNone \<Rightarrow> Inr VNone
      | _ \<Rightarrow> Inr (VBool (py_bool v)))"

text \<open>
  Lines 80-134. The handler of line 133 turns \<^verbatim>\<open>ValueError\<close>, \<^verbatim>\<open>TypeError\<close> and
  \<^verbatim>\<open>OverflowError\<close> into null; any other exception leaves the function.
\<close>

definition attempt_cast :: "pylib \<Rightarrow> pyval \<Rightarrow> target \<Rightarrow> pyexc + pyval" where
  "attempt_cast L v t =
     (if v = VNone then Inr VNone
      else if isinstance v t then Inr v
      else (case (case t of
                    TInt \<Rightarrow> cast_int v
                  | TFloat \<Rightarrow> (case py_float v of Inl e \<Rightarrow> Inl e | Inr f \<Rightarrow> Inr (VFloat f))
                  | TStr \<Rightarrow> Inr (VStr (lib_str L v))
                  | TBool \<Rightarrow> cast_bool v
                  | TDate \<Rightarrow> parse_date L v
                  | TDatetime \<Rightarrow> parse_datetime L v) of
              Inl e \<Rightarrow> if e \<in> set [ValueError, TypeError, OverflowError] then Inr VNone else Inl e
            | Inr w \<Rightarrow> Inr w))"

section \<open>Reading the results of a cast\<close>


text \<open>
  A sample standard library for the worked examples: it knows the ISO date form
  \<^verbatim>\<open>YYYY-MM-DD\<close> and no other, renders text and booleans, and allows 1000 nested calls.
\<close>

definition sample_fromisoformat :: "string \<Rightarrow> pydate option" where
  "sample_fromisoformat v =
     (if match_atoms (sep3 d4 (CHR ''-'') d2 d2) v \<and> length v = 10 then
        (case date_of_parts (take 4 v) (take 2 (drop 5 v)) (drop 8 v) of
           Inl e \<Rightarrow> None
         | Inr d \<Rightarrow> Some d)
      else None)"

definition sample_str :: "pyval \<Rightarrow> string" where
  "sample_str v = (case v of VStr s \<Rightarrow> s | VBool b \<Rightarrow> (if b then ''True'' else ''False'') | _ \<Rightarrow> [])"

definition sample_lib :: pylib where
  "sample_lib =
     \<lparr>lib_str = sample_str,
      lib_date_fromisoformat = sample_fromisoformat,
      lib_datetime_fromisoformat = (\<lambda>v. None),
      lib_strptime = (\<lambda>v f. None),
      lib_recursion_limit = 1000\<rparr>"

section \<open>Reading a date text part by part\<close>

text \<open>
  A numeric part is a non-empty run of decimal digits, \<open>part_value\<close> the number it
  writes, and \<open>calendar_date\<close> the date of a year, month and day when the calendar has
  one.
\<close>

definition numeric_part :: "string \<Rightarrow> bool" where
  "numeric_part p = (p \<noteq> [] \<and> list_all is_digit p)"

definition part_value :: "string \<Rightarrow> int" where
  "part_value p = int (nat_of_digits p)"

definition calendar_date :: "int \<Rightarrow> int \<Rightarrow> int \<Rightarrow> pydate option" where
  "calendar_date y m d =
     (if valid_date y m d then Some \<lparr>d_year = y, d_month = m, d_day = d\<rparr> else None)"

section \<open>Comparison of values\<close>

text \<open>
  The operator \<^verbatim>\<open>==\<close> of the language on cell values. Numbers compare by the number
  they denote, across integers, booleans and floats; NaN equals nothing, and the two zeros
  are equal. Two naive datetimes compare by their fields, two aware ones by the instant they
  denote, and a naive one never equals an aware one; a date never equals a datetime.
\<close>

definition unsigned_zero :: "pyfloat \<Rightarrow> pyfloat" where
  "unsigned_zero f = (if f = NegZero then Finite 0 else f)"

definition float_eq :: "pyfloat \<Rightarrow> pyfloat \<Rightarrow> bool" where
  "float_eq a b = (a \<noteq> NaN \<and> b \<noteq> NaN \<and> unsigned_zero a = unsigned_zero b)"

definition int_float_eq :: "int \<Rightarrow> pyfloat \<Rightarrow> bool" where
  "int_float_eq n f = (unsigned_zero f = Finite (of_int n))"

definition days_before_year :: "int \<Rightarrow> int" where
  "days_before_year y = (y - 1) * 365 + (y - 1) div 4 - (y - 1) div 100 + (y - 1) div 400"

definition ordinal :: "pydate \<Rightarrow> int" where
  "ordinal d = days_before_year (d_year d)
     + sum_list (map (days_in_month (d_year d)) [1 ..< nat (d_month d)])
     + d_day d"

definition utc_instant :: "pydatetime \<Rightarrow> int \<Rightarrow> int" where
  "utc_instant dt offset =
     (((ordinal (dt_date dt) * 24 + dt_hour dt) * 60 + dt_minute dt) * 60 + dt_second dt) * 1000000
       + dt_microsecond dt - offset"

definition datetime_eq :: "pydatetime \<Rightarrow> pydatetime \<Rightarrow> bool" where
  "datetime_eq a b =
     (case (dt_utcoffset a, dt_utcoffset b) of
        (None, None) \<Rightarrow> a = b
      | (Some x, Some y) \<Rightarrow> utc_instant a x = utc_instant b y
      | _ \<Rightarrow> False)"

fun py_eq :: "pyval \<Rightarrow> pyval \<Rightarrow> bool" where
  "py_eq VNone VNone = True"
| "py_eq (VStr a) (VStr b) = (a = b)"
| "py_eq (VInt a) (VInt b) = (a = b)"
| "py_eq (VInt a) (VBool b) = (a = (if b then 1 else 0))"
| "py_eq (VBool a) (VInt b) = ((if a then 1 else 0) = b)"
| "py_eq (VBool a) (VBool b) = (a = b)"
| "py_eq (VInt a) (VFloat b) = int_float_eq a b"
| "py_eq (VFloat a) (VInt b) = int_float_eq b a"
| "py_eq (VBool a) (VFloat b) = int_float_eq (if a then 1 else 0) b"
| "py_eq (VFloat a) (VBool b) = int_float_eq (if b then 1 else 0) a"
| "py_eq (VFloat a) (VFloat b) = float_eq a b"
| "py_eq (VDate a) (VDate b) = (a = b)"
| "py_eq (VDatetime a) (VDatetime b) = datetime_eq a b"
| "py_eq _ _ = False"

section \<open>Tables\<close>

text \<open>
  The table library is outside the repository; this is the part of it that
  \<^verbatim>\<open>caster.py\<close> uses. A table has named, typed columns and a sequence of rows; a row,
  as \<^verbatim>\<open>to_dicts\<close> gives it, maps column names to values, in the order of the columns.
  A cell a row does not have reads as null.
\<close>

datatype dtype = Int64 | Float64 | Utf8 | Boolean | Date | Datetime | Null | OtherDtype string

type_synonym row = "(string \<times> pyval) list"

record table =
  t_schema :: "(string \<times> dtype) list"
  t_rows :: "row list"

definition columns :: "table \<Rightarrow> string list" where
  "columns t = map fst (t_schema t)"

definition row_get :: "row \<Rightarrow> string \<Rightarrow> pyval" where
  "row_get r c = (case map_of r c of None \<Rightarrow> VNone | Some v \<Rightarrow> v)"

definition row_keys :: "row \<Rightarrow> string list" where
  "row_keys r = map fst r"

text \<open>Assignment to a key the row has: the key keeps its place.\<close>

definition row_update :: "row \<Rightarrow> string \<Rightarrow> pyval \<Rightarrow> row" where
  "row_update r k v = map (\<lambda>(k', v'). if k' = k then (k', v) else (k', v')) r"

definition is_empty :: "table \<Rightarrow> bool" where
  "is_empty t = (t_rows t = [])"

definition empty_table :: "(string \<times> dtype) list \<Rightarrow> table" where
  "empty_table sch = \<lparr>t_schema = sch, t_rows = []\<rparr>"

text \<open>\<^verbatim>\<open>df.select(pl.col(c).is_null().sum()).item()\<close>.\<close>

definition null_count :: "table \<Rightarrow> string \<Rightarrow> nat" where
  "null_count t c = length (filter (\<lambda>r. row_get r c = VNone) (t_rows t))"

text \<open>
  The three filters of \<^verbatim>\<open>split_dataframe\<close>. A comparison with null is null in the table
  library, and a filter keeps a row only where its predicate is true: a row whose cell is
  null is kept by none of them. A column the table does not have raises.
\<close>

definition filter_is_in :: "table \<Rightarrow> string \<Rightarrow> pyval list \<Rightarrow> pyexc + table" where
  "filter_is_in t c xs =
     (if c \<in> set (columns t)
      then Inr (t\<lparr>t_rows := filter (\<lambda>r. row_get r c \<noteq> VNone \<and> row_get r c \<in> set xs) (t_rows t)\<rparr>)
      else Inl (ColumnNotFoundError c))"

definition filter_not_in :: "table \<Rightarrow> string \<Rightarrow> pyval list \<Rightarrow> pyexc + table" where
  "filter_not_in t c xs =
     (if c \<in> set (columns t)
      then Inr (t\<lparr>t_rows := filter (\<lambda>r. row_get r c \<noteq> VNone \<and> row_get r c \<notin> set xs) (t_rows t)\<rparr>)
      else Inl (ColumnNotFoundError c))"

definition filter_eq :: "table \<Rightarrow> string \<Rightarrow> pyval \<Rightarrow> pyexc + table" where
  "filter_eq t c x =
     (if c \<in> set (columns t)
      then Inr (t\<lparr>t_rows := filter (\<lambda>r. row_get r c \<noteq> VNone \<and> x \<noteq> VNone \<and> row_get r c = x) (t_rows t)\<rparr>)
      else Inl (ColumnNotFoundError c))"

text \<open>
  \<^verbatim>\<open>df.select(cs)\<close>: every name must be a column, and no name may come twice.
\<close>

definition select :: "table \<Rightarrow> string list \<Rightarrow> pyexc + table" where
  "select t cs =
     (case filter (\<lambda>c. c \<notin> set (columns t)) cs of
        c # _ \<Rightarrow> Inl (ColumnNotFoundError c)
      | [] \<Rightarrow>
          if \<not> distinct cs then Inl (DuplicateError (hd (filter (\<lambda>c. 1 < count_list cs c) cs)))
          else Inr \<lparr>t_schema = map (\<lambda>c. (c, case map_of (t_schema t) c of None \<Rightarrow> Null | Some d \<Rightarrow> d)) cs,
                    t_rows = map (\<lambda>r. map (\<lambda>c. (c, row_get r c)) cs) (t_rows t)\<rparr>)"

text \<open>\<^verbatim>\<open>df.to_dict(as_series=False)[c]\<close>: the cells of one column, top to bottom.\<close>

definition column_values :: "table \<Rightarrow> string \<Rightarrow> pyval list" where
  "column_values t c = map (\<lambda>r. row_get r c) (t_rows t)"

text \<open>\<^verbatim>\<open>df.to_dicts()[0]\<close>.\<close>

definition first_row :: "table \<Rightarrow> pyexc + row" where
  "first_row t = (case t_rows t of [] \<Rightarrow> Inl IndexError | r # _ \<Rightarrow> Inr r)"

text \<open>
  \<^verbatim>\<open>pl.DataFrame(rows)\<close> followed by the cast of line 392: the columns are the keys of
  the rows in the order they first appear, a missing cell is null, and a column has the
  type the schema gives it, or else the type of its first value. The table library is
  taken to accept the rows it is given.
\<close>

definition first_seen :: "'a list \<Rightarrow> 'a list" where
  "first_seen xs = rev (remdups (rev xs))"

definition infer_dtype :: "pyval list \<Rightarrow> dtype" where
  "infer_dtype vs =
     (case filter (\<lambda>v. v \<noteq> VNone) vs of
        [] \<Rightarrow> Null
      | v # _ \<Rightarrow>
          (case v of
             VNone \<Rightarrow> Null
           | VStr _ \<Rightarrow> Utf8
           | VInt _ \<Rightarrow> Int64
           | VFloat _ \<Rightarrow> Float64
           | VBool _ \<Rightarrow> Boolean
           | VDate _ \<Rightarrow> Date
           | VDatetime _ \<Rightarrow> Datetime))"

definition frame_of_rows :: "(string \<times> dtype) list \<Rightarrow> row list \<Rightarrow> table" where
  "frame_of_rows polars_schema rows =
     (let cs = first_seen (concat (map row_keys rows)) in
      \<lparr>t_schema = map (\<lambda>c. (c, case map_of polars_schema c of
                                   Some d \<Rightarrow> d
                                 | None \<Rightarrow> infer_dtype (map (\<lambda>r. row_get r c) rows))) cs,
       t_rows = map (\<lambda>r. map (\<lambda>c. (c, row_get r c)) cs) rows\<rparr>)"

section \<open>Schemas\<close>

text \<open>
  The validation library is outside the repository too. A schema gives the
  \<^verbatim>\<open>properties\<close> of its JSON schema, in order, each with its \<^verbatim>\<open>type\<close>,
  \<^verbatim>\<open>format\<close> and \<^verbatim>\<open>anyOf\<close> entries where present, and the validation of a row:
  \<^verbatim>\<open>schema(**row).model_dump()\<close>, where \<open>None\<close> is the \<^verbatim>\<open>ValidationError\<close>.
\<close>

record field_info =
  fi_type :: "string option"
  fi_format :: "string option"
  fi_anyOf :: "(string option \<times> string option) list option"

record schema =
  sch_properties :: "(string \<times> field_info) list"
  sch_validate :: "row \<Rightarrow> row option"

type_synonym schema_mapping = "string \<Rightarrow> schema option"

text \<open>Lines 51-60 and 327-336: the type and format of a field, an optional one resolved.\<close>

definition resolve_field :: "field_info \<Rightarrow> string option \<times> string option" where
  "resolve_field fi =
     (case fi_anyOf fi of
        Some alternatives \<Rightarrow>
          if fi_type fi = Some ''null'' then
            (case filter (\<lambda>(t, f). t \<noteq> Some ''null'') alternatives of
               [] \<Rightarrow> (fi_type fi, fi_format fi)
             | (t, f) # _ \<Rightarrow> (t, f))
          else (fi_type fi, fi_format fi)
      | None \<Rightarrow> (fi_type fi, fi_format fi))"

text \<open>Lines 62-76.\<close>

definition polars_dtype :: "string option \<times> string option \<Rightarrow> dtype" where
  "polars_dtype tf =
     (case tf of (field_type, format_type) \<Rightarrow>
        if field_type = Some ''integer'' then Int64
        else if field_type = Some ''number'' then Float64
        else if field_type = Some ''string'' then
          (if format_type = Some ''date-time'' then Datetime
           else if format_type = Some ''date'' then Date
           else Utf8)
        else if field_type = Some ''boolean'' then Boolean
        else Utf8)"

definition get_polars_schema :: "schema \<Rightarrow> (string \<times> dtype) list" where
  "get_polars_schema sch =
     map (\<lambda>(field_name, fi). (field_name, polars_dtype (resolve_field fi))) (sch_properties sch)"

text \<open>Lines 339-351: the target of the cast, or none where no branch applies.\<close>

definition cast_target :: "string option \<times> string option \<Rightarrow> target option" where
  "cast_target tf =
     (case tf of (field_type, format_type) \<Rightarrow>
        if field_type = Some ''integer'' then Some TInt
        else if field_type = Some ''number'' then Some TFloat
        else if field_type = Some ''string'' then
          (if format_type = Some ''date-time'' then Some TDatetime
           else if format_type = Some ''date'' then Some TDate
           else Some TStr)
        else if field_type = Some ''boolean'' then Some TBool
        else None)"

section \<open>\<^verbatim>\<open>cast_row\<close> and \<^verbatim>\<open>cast_dataframe\<close>\<close>

text \<open>Lines 322-351: the loop over the fields of the schema.\<close>

fun cast_fields :: "pylib \<Rightarrow> (string \<times> field_info) list \<Rightarrow> row \<Rightarrow> pyexc + row" where
  "cast_fields L [] processed_row = Inr processed_row"
| "cast_fields L ((field_name, fi) # rest) processed_row =
     (if field_name \<notin> set (row_keys processed_row) then cast_fields L rest processed_row
      else (case cast_target (resolve_field fi) of
              None \<Rightarrow> cast_fields L rest processed_row
            | Some t \<Rightarrow>
                (case attempt_cast L (row_get processed_row field_name) t of
                   Inl e \<Rightarrow> Inl e
                 | Inr w \<Rightarrow> cast_fields L rest (row_update processed_row field_name w))))"

text \<open>Lines 317-357.\<close>

definition cast_row :: "pylib \<Rightarrow> schema \<Rightarrow> row \<Rightarrow> pyexc + row" where
  "cast_row L sch r =
     (case cast_fields L (sch_properties sch) r of
        Inl e \<Rightarrow> Inl e
      | Inr processed_row \<Rightarrow>
          (case sch_validate sch processed_row of
             None \<Rightarrow> Inl RowValidationFailure
           | Some validated_row \<Rightarrow> Inr validated_row))"

text \<open>
  Lines 373-378: a row whose cast raises a \<^verbatim>\<open>ValueError\<close> is printed and left out;
  any other exception ends the loop.
\<close>

fun cast_rows :: "pylib \<Rightarrow> schema \<Rightarrow> row list \<Rightarrow> pyexc + row list" where
  "cast_rows L sch [] = Inr []"
| "cast_rows L sch (r # rs) =
     (case cast_row L sch r of
        Inl e \<Rightarrow> if is_ValueError e then cast_rows L sch rs else Inl e
      | Inr casted_row \<Rightarrow>
          (case cast_rows L sch rs of
             Inl e \<Rightarrow> Inl e
           | Inr casted_rows \<Rightarrow> Inr (casted_row # casted_rows)))"

text \<open>Lines 359-394.\<close>

definition cast_dataframe :: "pylib \<Rightarrow> schema_mapping \<Rightarrow> table \<Rightarrow> string \<Rightarrow> pyexc + table" where
  "cast_dataframe L schema_mapping df schema_name =
     (case schema_mapping schema_name of
        None \<Rightarrow> Inl (SchemaNotFound schema_name)
      | Some sch \<Rightarrow>
          if is_empty df then Inr (empty_table (get_polars_schema sch))
          else (case cast_rows L sch (t_rows df) of
                  Inl e \<Rightarrow> Inl e
                | Inr casted_rows \<Rightarrow>
                    if casted_rows = [] then Inr (empty_table (get_polars_schema sch))
                    else Inr (frame_of_rows (get_polars_schema sch) casted_rows)))"

section \<open>\<^verbatim>\<open>split_dataframe\<close>\<close>

text \<open>Lines 418-422: every key column must be in both original tables.\<close>

fun check_columns :: "string list \<Rightarrow> table \<Rightarrow> table \<Rightarrow> pyexc option" where
  "check_columns [] df_new df_db = None"
| "check_columns (pk # pks) df_new df_db =
     (if pk \<notin> set (columns df_new) then Some (MissingPrimaryKeyColumn DfNew pk)
      else if pk \<notin> set (columns df_db) then Some (MissingPrimaryKeyColumn DfDb pk)
      else check_columns pks df_new df_db)"

text \<open>Lines 425-432: no key column may hold a null in either original table.\<close>

fun check_nulls :: "string list \<Rightarrow> table \<Rightarrow> table \<Rightarrow> pyexc option" where
  "check_nulls [] df_new df_db = None"
| "check_nulls (pk # pks) df_new df_db =
     (let null_count_new = null_count df_new pk;
          null_count_db = null_count df_db pk
      in if 0 < null_count_new then Some (NullPrimaryKeyValue DfNew pk null_count_new)
         else if 0 < null_count_db then Some (NullPrimaryKeyValue DfDb pk null_count_db)
         else check_nulls pks df_new df_db)"

definition is_datelike :: "pyval \<Rightarrow> bool" where
  "is_datelike v = (case v of VDate _ \<Rightarrow> True | VDatetime _ \<Rightarrow> True | _ \<Rightarrow> False)"

text \<open>Lines 480-488: \<^verbatim>\<open>.date()\<close> of a datetime, a date as it is.\<close>

definition date_part :: "pyval \<Rightarrow> pyval" where
  "date_part v = (case v of VDatetime dt \<Rightarrow> VDate (dt_date dt) | _ \<Rightarrow> v)"

text \<open>
  Lines 468-496: the loop over the keys of the coerced new row, which stops at the first
  field that differs.
\<close>

fun identical_loop :: "string list \<Rightarrow> row \<Rightarrow> row \<Rightarrow> string list \<Rightarrow> bool" where
  "identical_loop pks row_new row_db [] = True"
| "identical_loop pks row_new row_db (key # keys) =
     (if key \<in> set (row_keys row_db) \<and> key \<notin> set pks then
        (if row_get row_new key = VNone \<and> row_get row_db key = VNone
         then identical_loop pks row_new row_db keys
         else if row_get row_new key = VNone \<or> row_get row_db key = VNone then False
         else if is_datelike (row_get row_new key) \<and> is_datelike (row_get row_db key) then
           (if \<not> py_eq (date_part (row_get row_new key)) (date_part (row_get row_db key))
            then False
            else identical_loop pks row_new row_db keys)
         else if \<not> py_eq (row_get row_new key) (row_get row_db key) then False
         else identical_loop pks row_new row_db keys)
      else identical_loop pks row_new row_db keys)"

definition is_identical :: "string list \<Rightarrow> row \<Rightarrow> row \<Rightarrow> bool" where
  "is_identical pks row_new row_db = identical_loop pks row_new row_db (row_keys row_new)"

text \<open>
  Lines 463-501: for each key in both coerced tables, the first coerced row of each side is
  fetched and compared; the key goes to \<^verbatim>\<open>equals_ids\<close> or to \<^verbatim>\<open>update_ids\<close>.
\<close>

fun classify ::
  "table \<Rightarrow> table \<Rightarrow> string list \<Rightarrow> string \<Rightarrow> pyval list \<Rightarrow> pyexc + pyval list \<times> pyval list" where
  "classify casted_new casted_db pks pk0 [] = Inr ([], [])"
| "classify casted_new casted_db pks pk0 (id_val # ids) =
     (case filter_eq casted_new pk0 id_val of
        Inl e \<Rightarrow> Inl e
      | Inr matches_new \<Rightarrow>
          (case first_row matches_new of
             Inl e \<Rightarrow> Inl e
           | Inr row_new \<Rightarrow>
               (case filter_eq casted_db pk0 id_val of
                  Inl e \<Rightarrow> Inl e
                | Inr matches_db \<Rightarrow>
                    (case first_row matches_db of
                       Inl e \<Rightarrow> Inl e
                     | Inr row_db \<Rightarrow>
                         (case classify casted_new casted_db pks pk0 ids of
                            Inl e \<Rightarrow> Inl e
                          | Inr (equals_ids, update_ids) \<Rightarrow>
                              if is_identical pks row_new row_db
                              then Inr (id_val # equals_ids, update_ids)
                              else Inr (equals_ids, id_val # update_ids))))))"

text \<open>Lines 504-505.\<close>

definition rows_with_ids :: "table \<Rightarrow> string \<Rightarrow> pyval list \<Rightarrow> pyexc + table" where
  "rows_with_ids original_df_new pk0 ids =
     (if ids \<noteq> [] then filter_is_in original_df_new pk0 ids
      else Inr (empty_table (t_schema original_df_new)))"

text \<open>Lines 448-507: the general case, both tables having rows; \<open>pk0\<close> is \<^verbatim>\<open>pks[0]\<close>.\<close>

definition split_general ::
  "pylib \<Rightarrow> schema_mapping \<Rightarrow> table \<Rightarrow> table \<Rightarrow> string list \<Rightarrow> string \<Rightarrow> string
     \<Rightarrow> pyexc + table \<times> table \<times> table" where
  "split_general L schema_mapping df_new df_db pks pk0 schema_name =
     (case cast_dataframe L schema_mapping df_new schema_name of
        Inl e \<Rightarrow> Inl e
      | Inr casted_new \<Rightarrow>
     (case cast_dataframe L schema_mapping df_db schema_name of
        Inl e \<Rightarrow> Inl e
      | Inr casted_db \<Rightarrow>
     (case select casted_db pks of
        Inl e \<Rightarrow> Inl e
      | Inr keys_db \<Rightarrow>
     (let ids_in_db = column_values keys_db pk0 in
     (case filter_not_in df_new pk0 ids_in_db of
        Inl e \<Rightarrow> Inl e
      | Inr insert_df \<Rightarrow>
     (case filter_is_in casted_new pk0 ids_in_db of
        Inl e \<Rightarrow> Inl e
      | Inr matched \<Rightarrow>
     (case select matched pks of
        Inl e \<Rightarrow> Inl e
      | Inr keys_both \<Rightarrow>
     (let ids_in_both = column_values keys_both pk0 in
     (case classify casted_new casted_db pks pk0 ids_in_both of
        Inl e \<Rightarrow> Inl e
      | Inr (equals_ids, update_ids) \<Rightarrow>
     (case rows_with_ids df_new pk0 equals_ids of
        Inl e \<Rightarrow> Inl e
      | Inr equals_df \<Rightarrow>
     (case rows_with_ids df_new pk0 update_ids of
        Inl e \<Rightarrow> Inl e
      | Inr update_df \<Rightarrow> Inr (insert_df, equals_df, update_df))))))))))))"

text \<open>Lines 396-446, then the general case.\<close>

definition split_dataframe ::
  "pylib \<Rightarrow> schema_mapping \<Rightarrow> table \<Rightarrow> table \<Rightarrow> string list \<Rightarrow> string
     \<Rightarrow> pyexc + table \<times> table \<times> table" where
  "split_dataframe L schema_mapping df_new df_db pks schema_name =
     (case schema_mapping schema_name of
        None \<Rightarrow> Inl (SchemaNotFound schema_name)
      | Some sch \<Rightarrow>
          (case pks of
             [] \<Rightarrow> Inl EmptyPrimaryKeyList
           | pk0 # _ \<Rightarrow>
               (case check_columns pks df_new df_db of
                  Some e \<Rightarrow> Inl e
                | None \<Rightarrow>
                    (case check_nulls pks df_new df_db of
                       Some e \<Rightarrow> Inl e
                     | None \<Rightarrow>
                         if is_empty df_new then
                           (let empty_df = empty_table (get_polars_schema sch)
                            in Inr (empty_df, empty_df, empty_df))
                         else if is_empty df_db then
                           (let empty_df = empty_table (t_schema df_new)
                            in Inr (df_new, empty_df, empty_df))
                         else split_general L schema_mapping df_new df_db pks pk0 schema_name))))"

section \<open>The reconciliation, as the specification words it\<close>

definition side_table :: "table_side \<Rightarrow> table \<Rightarrow> table \<Rightarrow> table" where
  "side_table side df_new df_db = (case side of DfNew \<Rightarrow> df_new | DfDb \<Rightarrow> df_db)"


text \<open>
  The rules for one field: two nulls are equal, a null and a value are not, two dates or
  datetimes are equal when their calendar dates are, and any other two values are equal when
  the comparison of the language says so.
\<close>

definition calendar_day :: "pyval \<Rightarrow> pydate option" where
  "calendar_day v = (case v of VDate d \<Rightarrow> Some d | VDatetime dt \<Rightarrow> Some (dt_date dt) | _ \<Rightarrow> None)"

definition field_equal :: "pyval \<Rightarrow> pyval \<Rightarrow> bool" where
  "field_equal a b =
     (if a = VNone \<and> b = VNone then True
      else if a = VNone \<or> b = VNone then False
      else if calendar_day a \<noteq> None \<and> calendar_day b \<noteq> None then calendar_day a = calendar_day b
      else py_eq a b)"








section \<open>A sample schema\<close>

text \<open>
  For the worked examples: a record with an integer \<^verbatim>\<open>id\<close> and an integer
  \<^verbatim>\<open>edad\<close>, which may be null under the name \<^verbatim>\<open>person\<close> and may not under the name
  \<^verbatim>\<open>strict\<close>. Validation keeps the two fields of a row that has them as it should.
\<close>

definition integer_field :: field_info where
  "integer_field = \<lparr>fi_type = Some ''integer'', fi_format = None, fi_anyOf = None\<rparr>"

definition sample_validate :: "bool \<Rightarrow> row \<Rightarrow> row option" where
  "sample_validate nullable r =
     (case row_get r ''id'' of
        VInt i \<Rightarrow>
          (case row_get r ''edad'' of
             VInt e \<Rightarrow> Some [(''id'', VInt i), (''edad'', VInt e)]
           | VNone \<Rightarrow> if nullable then Some [(''id'', VInt i), (''edad'', VNone)] else None
           | _ \<Rightarrow> None)
      | _ \<Rightarrow> None)"

definition sample_schema :: "bool \<Rightarrow> schema" where
  "sample_schema nullable =
     \<lparr>sch_properties = [(''id'', integer_field), (''edad'', integer_field)],
      sch_validate = sample_validate nullable\<rparr>"

definition sample_mapping :: schema_mapping where
  "sample_mapping name =
     (if name = ''person'' then Some (sample_schema True)
      else if name = ''strict'' then Some (sample_schema False)
      else None)"

text \<open>A table of the two columns, from pairs of cells.\<close>

definition sample_table :: "(pyval \<times> pyval) list \<Rightarrow> table" where
  "sample_table cells =
     \<lparr>t_schema = [(''id'', Int64), (''edad'', Utf8)],
      t_rows = map (\<lambda>(i, e). [(''id'', i), (''edad'', e)]) cells\<rparr>"






section \<open>Properties of \<^verbatim>\<open>attempt_cast\<close>\<close>








subsection \<open>Three texts, evaluated\<close>






text \<open>
  C10. A boolean cast to the integer target comes back unchanged, as a boolean: the
  pass-through test of line 85 takes a boolean for an integer.
\<close>

theorem attempt_cast_bool_to_integer:
  "attempt_cast L (VBool b) TInt = Inr (VBool b)"
  by (simp add: attempt_cast_def isinstance_def)

lemma attempt_cast_str_bool:
  "attempt_cast L (VStr s) TBool =
     Inr (VBool (if strip (lower s) \<in> set true_words then True
                 else if strip (lower s) \<in> set false_words then False
                 else strip (lower s) \<noteq> []))"
  by (simp add: attempt_cast_def isinstance_def cast_bool_def Let_def)

text \<open>
  C6. To the boolean target, text is put in lower case and stripped of white space; the
  five words of the first list give true, the six of the second (the empty text among them)
  give false, and any other text, which is then not empty, gives true. The integer zero
  gives false and any other integer true; a float gives null when it is NaN, false when it
  is a zero and true otherwise; a boolean comes back unchanged.
\<close>

theorem attempt_cast_boolean_target:
  "(strip (lower s) \<in> set [''true'', ''yes'', ''1'', ''t'', ''y'']
      \<longrightarrow> attempt_cast L (VStr s) TBool = Inr (VBool True))
   \<and> (strip (lower s) \<in> set [''false'', ''no'', ''0'', ''f'', ''n'', []]
      \<longrightarrow> attempt_cast L (VStr s) TBool = Inr (VBool False))
   \<and> (strip (lower s) \<notin> set [''true'', ''yes'', ''1'', ''t'', ''y'']
      \<and> strip (lower s) \<notin> set [''false'', ''no'', ''0'', ''f'', ''n'', []]
      \<longrightarrow> strip (lower s) \<noteq> [] \<and> attempt_cast L (VStr s) TBool = Inr (VBool True))
   \<and> attempt_cast L (VInt n) TBool = Inr (VBool (n \<noteq> 0))
   \<and> attempt_cast L (VFloat f) TBool =
       (if f = NaN then Inr VNone else Inr (VBool (f \<noteq> Finite 0 \<and> f \<noteq> NegZero)))
   \<and> attempt_cast L (VBool b) TBool = Inr (VBool b)"
proof -
  have n: "attempt_cast L (VInt n) TBool = Inr (VBool (n \<noteq> 0))"
    by (simp add: attempt_cast_def isinstance_def cast_bool_def)
  have f: "attempt_cast L (VFloat f) TBool =
       (if f = NaN then Inr VNone else Inr (VBool (f \<noteq> Finite 0 \<and> f \<noteq> NegZero)))"
    by (cases f) (simp_all add: attempt_cast_def isinstance_def cast_bool_def)
  have b: "attempt_cast L (VBool b) TBool = Inr (VBool b)"
    by (simp add: attempt_cast_def isinstance_def)
  show ?thesis
    unfolding attempt_cast_str_bool n f b
    by (auto simp: true_words_def false_words_def)
qed

lemma normal_form_YES: "strip (lower '' YES '') = ''yes''"
  by code_simp

lemma normal_form_No: "strip (lower ''No'') = ''no''"
  by code_simp

lemma normal_form_abc: "strip (lower ''abc'') = ''abc''"
  by code_simp

theorem attempt_cast_boolean_target_witness:
  "attempt_cast sample_lib (VStr '' YES '') TBool = Inr (VBool True)
   \<and> attempt_cast sample_lib (VStr ''No'') TBool = Inr (VBool False)
   \<and> attempt_cast sample_lib (VStr ''abc'') TBool = Inr (VBool True)"
  using attempt_cast_boolean_target [of "'' YES ''" sample_lib]
    attempt_cast_boolean_target [of "''No''" sample_lib]
    attempt_cast_boolean_target [of "''abc''" sample_lib]
  unfolding normal_form_YES normal_form_No normal_form_abc by simp

subsection \<open>Idempotence\<close>







section \<open>The manual fallback of the temporal parser\<close>

lemma split_on_no_sep: "sep \<notin> set p \<Longrightarrow> split_on sep p = [p]"
  by (induction p) auto

lemma split_on_append:
  "sep \<notin> set p \<Longrightarrow> split_on sep (p @ sep # r) = p # split_on sep r"
  by (induction p) (auto split: list.splits)

lemma split_on_three:
  "sep \<notin> set p0 \<Longrightarrow> sep \<notin> set p1 \<Longrightarrow> sep \<notin> set p2 \<Longrightarrow>
   split_on sep (p0 @ sep # p1 @ sep # p2) = [p0, p1, p2]"
  by (simp add: split_on_append split_on_no_sep)

lemma digit_not_space: "is_digit c \<Longrightarrow> \<not> is_space c"
  by (auto simp: is_digit_def is_space_def Let_def)

lemma strip_digits: "list_all is_digit p \<Longrightarrow> strip p = p"
proof -
  assume a: "list_all is_digit p"
  have 1: "dropWhile is_space p = p"
    using a by (cases p) (auto simp: digit_not_space)
  have "list_all is_digit (rev p)" using a by (simp add: list_all_iff)
  then have 2: "dropWhile is_space (rev p) = rev p"
    by (cases "rev p") (auto simp: digit_not_space)
  show ?thesis by (simp add: strip_def 1 2)
qed

lemma digit_not_underscore: "is_digit c \<Longrightarrow> c \<noteq> CHR ''_''"
  by (auto simp: is_digit_def code_def)

lemma strip_underscores_digits:
  "list_all is_digit p \<Longrightarrow> prev \<noteq> Some (CHR ''_'') \<Longrightarrow> strip_underscores prev p = Some p"
  by (induction p arbitrary: prev) (auto simp: digit_not_underscore)

lemma parse_sign_digits: "list_all is_digit p \<Longrightarrow> parse_sign p = (False, p)"
  by (cases p) (auto simp: is_digit_def code_def)

lemma int_of_str_digits:
  "list_all is_digit p \<Longrightarrow> p \<noteq> [] \<Longrightarrow> int_of_str p = Some (int (nat_of_digits p))"
  by (simp add: int_of_str_def strip_digits strip_underscores_digits parse_sign_digits)

lemma date_of_parts_numeric:
  assumes "numeric_part a" "numeric_part b" "numeric_part c"
    and "fits_c_int (part_value a)" "fits_c_int (part_value b)" "fits_c_int (part_value c)"
  shows "date_of_parts a b c =
     (case calendar_date (part_value a) (part_value b) (part_value c) of
        None \<Rightarrow> Inl ValueError | Some d \<Rightarrow> Inr d)"
  using assms
  by (simp add: date_of_parts_def numeric_part_def int_of_str_digits part_value_def
      mk_date_def calendar_date_def)

lemma manual_try_numeric:
  assumes "numeric_part p0" "numeric_part p1" "numeric_part p2"
    and "fits_c_int (part_value p0)" "fits_c_int (part_value p1)" "fits_c_int (part_value p2)"
  shows "manual_try p0 p1 p2 =
     Inr (if length p0 = 4 then calendar_date (part_value p0) (part_value p1) (part_value p2)
          else if length p2 = 4 then
            (case calendar_date (part_value p2) (part_value p0) (part_value p1) of
               Some d \<Rightarrow> Some d
             | None \<Rightarrow> calendar_date (part_value p2) (part_value p1) (part_value p0))
          else None)"
  using assms
  by (simp add: manual_try_def date_of_parts_numeric swallow_def returning_def
      split: option.splits)

lemma digit_not_sep: "is_digit c \<Longrightarrow> c \<noteq> CHR ''/'' \<and> c \<noteq> CHR ''-''"
  by (auto simp: is_digit_def code_def)

lemma numeric_no_sep: "numeric_part p \<Longrightarrow> CHR ''/'' \<notin> set p \<and> CHR ''-'' \<notin> set p"
  by (auto simp: numeric_part_def list_all_iff dest: digit_not_sep)

text \<open>
  On three numeric parts that a C \<^verbatim>\<open>int\<close> holds, joined by slashes or by dashes, the
  fallback reads year-month-day when the first part has four digits; otherwise, when the
  last part has four, it takes the first date the calendar has of month-first and
  day-first; otherwise it falls through.
\<close>

lemma manual_fallback_numeric:
  assumes "numeric_part p0" "numeric_part p1" "numeric_part p2"
    and "fits_c_int (part_value p0)" "fits_c_int (part_value p1)" "fits_c_int (part_value p2)"
    and "sep = CHR ''/'' \<or> sep = CHR ''-''"
  shows "manual_fallback (p0 @ sep # p1 @ sep # p2) =
     Inr (if length p0 = 4 then calendar_date (part_value p0) (part_value p1) (part_value p2)
          else if length p2 = 4 then
            (case calendar_date (part_value p2) (part_value p0) (part_value p1) of
               Some d \<Rightarrow> Some d
             | None \<Rightarrow> calendar_date (part_value p2) (part_value p1) (part_value p0))
          else None)"
proof -
  let ?v = "p0 @ sep # p1 @ sep # p2"
  note ns = numeric_no_sep [OF assms(1)] numeric_no_sep [OF assms(2)] numeric_no_sep [OF assms(3)]
  note mt = manual_try_numeric [OF assms(1-6)]
  from assms(7) show ?thesis
  proof
    assume s: "sep = CHR ''/''"
    have "manual_sep (CHR ''/'') ?v = manual_try p0 p1 p2"
      using ns by (simp add: manual_sep_def s split_on_three)
    moreover have "manual_sep (CHR ''-'') ?v = Inr None"
      using ns by (simp add: manual_sep_def s)
    ultimately show ?thesis
      by (simp add: manual_fallback_def mt split: option.splits)
  next
    assume s: "sep = CHR ''-''"
    have "manual_sep (CHR ''-'') ?v = manual_try p0 p1 p2"
      using ns by (simp add: manual_sep_def s split_on_three)
    moreover have "manual_sep (CHR ''/'') ?v = Inr None"
      using ns by (simp add: manual_sep_def s)
    ultimately show ?thesis
      by (simp add: manual_fallback_def mt)
  qed
qed


lemmas digit_eval = is_digit_def code_def nat_of_digits_def digit_val_def

lemma int_of_str_2022: "int_of_str ''2022'' = Some 2022"
  using int_of_str_digits [of "''2022''"] by (simp add: digit_eval)

lemma int_of_str_1: "int_of_str ''1'' = Some 1"
  using int_of_str_digits [of "''1''"] by (simp add: digit_eval)

lemma int_of_str_13: "int_of_str ''13'' = Some 13"
  using int_of_str_digits [of "''13''"] by (simp add: digit_eval)

lemma int_of_str_huge: "int_of_str ''99999999999'' = Some 99999999999"
  using int_of_str_digits [of "''99999999999''"] by (simp add: digit_eval)

lemma overflowing_month: "date_of_parts ''2022'' ''99999999999'' ''1'' = Inl OverflowError"
  by (simp add: date_of_parts_def int_of_str_2022 int_of_str_1 int_of_str_huge
      mk_date_def fits_c_int_def)

lemma manual_fallback_overflow: "manual_fallback ''99999999999/1/2022'' = Inl OverflowError"
  by (simp add: manual_fallback_def manual_sep_def manual_try_def overflowing_month swallow_def)

lemma no_thirteenth_month: "date_of_parts ''2022'' ''13'' ''13'' = Inl ValueError"
  by (simp add: date_of_parts_def int_of_str_2022 int_of_str_13
      mk_date_def fits_c_int_def valid_date_def)

lemma manual_fallback_nothing: "manual_fallback ''13/13/2022'' = Inr None"
  by (simp add: manual_fallback_def manual_sep_def manual_try_def no_thirteenth_month
      swallow_def returning_def)

subsection \<open>The fallback inside \<^verbatim>\<open>parse_date\<close>\<close>

lemma sample_date_patterns: "date_pattern_stage sample_lib v ps = None"
  by (induction ps) (auto simp: sample_lib_def)

lemma sample_datetime_patterns: "datetime_pattern_stage sample_lib v ps = None"
  by (induction ps) (auto simp: sample_lib_def split: option.splits)

lemma sample_datetime_fast: "datetime_fast_path sample_lib v = None"
  by (simp add: datetime_fast_path_def sample_lib_def split: option.splits)

text \<open>
  When every stage of both parsers fails on a text, line 215 calls \<^verbatim>\<open>parse_datetime\<close>
  and line 282 calls \<^verbatim>\<open>parse_date\<close> on the same text again: whatever depth the
  interpreter allows, both end in \<^verbatim>\<open>RecursionError\<close>.
\<close>

lemma mutual_recursion:
  assumes "date_fast_path L v = Inr None"
    and "date_pattern_stage L v date_patterns = None"
    and "manual_fallback v = Inr None"
    and "datetime_fast_path L v = None"
    and "datetime_pattern_stage L v datetime_patterns = None"
  shows "parse_date_str n L v = Inl RecursionError \<and> parse_datetime_str n L v = Inl RecursionError"
  using assms by (induction n) simp_all

text \<open>
  On text, neither parser ever returns null: the null of line 219 can only come from the
  null of line 315 and the other way round, so a call that returns has a date.
\<close>

lemma parse_never_null:
  "parse_date_str n L v \<noteq> Inr None \<and> parse_datetime_str n L v \<noteq> Inr None"
proof (induction n)
  case 0
  then show ?case by simp
next
  case (Suc n)
  have d: "parse_date_str (Suc n) L v \<noteq> Inr None"
    using Suc by (auto split: sum.splits option.splits)
  have "parse_datetime_str (Suc n) L v \<noteq> Inr None"
    using Suc by (auto split: sum.splits option.splits)
  with d show ?case by simp
qed

lemma fast_path_13: "date_fast_path sample_lib ''13/13/2022'' = Inr None"
  by (simp add: date_fast_path_def sample_lib_def sample_fromisoformat_def sep3_def d4_def d2_def
      is_digit_def code_def raising_def returning_def swallow_def)

lemma fast_path_huge: "date_fast_path sample_lib ''99999999999/1/2022'' = Inr None"
  by (simp add: date_fast_path_def sample_lib_def sample_fromisoformat_def
      raising_def returning_def swallow_def)

lemma parse_date_13: "parse_date sample_lib (VStr ''13/13/2022'') = Inl RecursionError"
  using mutual_recursion [OF fast_path_13 sample_date_patterns manual_fallback_nothing
      sample_datetime_fast sample_datetime_patterns, of 1000]
  by (simp add: parse_date_def sample_lib_def)

lemma parse_date_huge: "parse_date sample_lib (VStr ''99999999999/1/2022'') = Inl OverflowError"
proof -
  have "parse_date_str (Suc 999) sample_lib ''99999999999/1/2022'' = Inl OverflowError"
    unfolding parse_date_str.simps fast_path_huge sample_date_patterns manual_fallback_overflow
    by simp
  then show ?thesis
    by (simp add: parse_date_def sample_lib_def)
qed

text \<open>
  C8. The manual slash/dash fallback reads three numeric parts as year-month-day when the
  first has four digits and otherwise, when the last has four, month-first and then
  day-first, and is to give null when neither is a date. On \<^verbatim>\<open>99999999999/1/2022\<close> it
  gives no null: the month does not fit a C \<^verbatim>\<open>int\<close>, the constructor raises
  \<^verbatim>\<open>OverflowError\<close>, and the handlers of lines 188-193 catch \<^verbatim>\<open>ValueError\<close> and
  \<^verbatim>\<open>IndexError\<close> only, so the exception leaves \<^verbatim>\<open>parse_date\<close>. On
  \<^verbatim>\<open>13/13/2022\<close> the fallback itself falls through, and \<^verbatim>\<open>parse_date\<close> then ends
  in \<^verbatim>\<open>RecursionError\<close> instead of null.
\<close>

theorem manual_fallback_without_null:
  "manual_fallback ''99999999999/1/2022'' = Inl OverflowError
   \<and> parse_date sample_lib (VStr ''99999999999/1/2022'') = Inl OverflowError
   \<and> manual_fallback ''13/13/2022'' = Inr None
   \<and> parse_date sample_lib (VStr ''13/13/2022'') = Inl RecursionError"
  by (simp add: manual_fallback_overflow parse_date_huge manual_fallback_nothing parse_date_13)

section \<open>The preconditions and the empty inputs of \<^verbatim>\<open>split_dataframe\<close>\<close>

lemma check_columns_None:
  "check_columns pks df_new df_db = None \<longleftrightarrow>
     list_all (\<lambda>pk. pk \<in> set (columns df_new) \<and> pk \<in> set (columns df_db)) pks"
  by (induction pks) auto

lemma check_nulls_None:
  "check_nulls pks df_new df_db = None \<longleftrightarrow>
     list_all (\<lambda>pk. null_count df_new pk = 0 \<and> null_count df_db pk = 0) pks"
  by (induction pks) (auto simp: Let_def)

lemma check_columns_Some:
  "check_columns pks df_new df_db = Some e \<Longrightarrow>
     \<exists>side pk. pk \<in> set pks \<and> pk \<notin> set (columns (side_table side df_new df_db))
       \<and> e = MissingPrimaryKeyColumn side pk"
proof (induction pks)
  case Nil
  then show ?case by simp
next
  case (Cons a pks)
  show ?case
  proof (cases "a \<notin> set (columns df_new)")
    case True
    with Cons.prems have "e = MissingPrimaryKeyColumn DfNew a" by simp
    with True show ?thesis
      by (intro exI [of _ DfNew] exI [of _ a]) (simp add: side_table_def)
  next
    case n: False
    show ?thesis
    proof (cases "a \<notin> set (columns df_db)")
      case True
      with n Cons.prems have "e = MissingPrimaryKeyColumn DfDb a" by simp
      with True show ?thesis
        by (intro exI [of _ DfDb] exI [of _ a]) (simp add: side_table_def)
    next
      case False
      with n Cons.prems have "check_columns pks df_new df_db = Some e" by simp
      from Cons.IH [OF this] show ?thesis by auto
    qed
  qed
qed

lemma check_nulls_Some:
  "check_nulls pks df_new df_db = Some e \<Longrightarrow>
     \<exists>side pk. pk \<in> set pks \<and> 0 < null_count (side_table side df_new df_db) pk
       \<and> e = NullPrimaryKeyValue side pk (null_count (side_table side df_new df_db) pk)"
proof (induction pks)
  case Nil
  then show ?case by simp
next
  case (Cons a pks)
  show ?case
  proof (cases "0 < null_count df_new a")
    case True
    with Cons.prems have "e = NullPrimaryKeyValue DfNew a (null_count df_new a)"
      by (simp add: Let_def)
    with True show ?thesis
      by (intro exI [of _ DfNew] exI [of _ a]) (simp add: side_table_def)
  next
    case n: False
    show ?thesis
    proof (cases "0 < null_count df_db a")
      case True
      with n Cons.prems have "e = NullPrimaryKeyValue DfDb a (null_count df_db a)"
        by (simp add: Let_def)
      with True show ?thesis
        by (intro exI [of _ DfDb] exI [of _ a]) (simp add: side_table_def)
    next
      case False
      with n Cons.prems have "check_nulls pks df_new df_db = Some e" by (simp add: Let_def)
      from Cons.IH [OF this] show ?thesis by auto
    qed
  qed
qed


text \<open>
  C3. The preconditions on the key columns are checked on the original tables, and their
  failure is fatal before any coercion: an empty key list raises \<open>EmptyPrimaryKeyList\<close>;
  a key column missing from a table raises \<open>MissingPrimaryKeyColumn\<close> with the table and
  the column; a null in a key column raises \<open>NullPrimaryKeyValue\<close> with the table, the
  column and its number of nulls. The checks run in this order, and the error is the same
  under every standard library and every schema registered under the name, so no coercion
  has a part in it.
\<close>

theorem split_preconditions_fatal:
  "(pks = [] \<longrightarrow>
      (\<forall>L sm. sm name \<noteq> None \<longrightarrow>
         split_dataframe L sm df_new df_db pks name = Inl EmptyPrimaryKeyList))
   \<and> (pks \<noteq> []
        \<and> \<not> list_all (\<lambda>pk. pk \<in> set (columns df_new) \<and> pk \<in> set (columns df_db)) pks \<longrightarrow>
      (\<exists>side pk. pk \<in> set pks \<and> pk \<notin> set (columns (side_table side df_new df_db))
         \<and> (\<forall>L sm. sm name \<noteq> None \<longrightarrow>
               split_dataframe L sm df_new df_db pks name
                 = Inl (MissingPrimaryKeyColumn side pk))))
   \<and> (pks \<noteq> []
        \<and> list_all (\<lambda>pk. pk \<in> set (columns df_new) \<and> pk \<in> set (columns df_db)) pks
        \<and> \<not> list_all (\<lambda>pk. null_count df_new pk = 0 \<and> null_count df_db pk = 0) pks \<longrightarrow>
      (\<exists>side pk. pk \<in> set pks \<and> 0 < null_count (side_table side df_new df_db) pk
         \<and> (\<forall>L sm. sm name \<noteq> None \<longrightarrow>
               split_dataframe L sm df_new df_db pks name
                 = Inl (NullPrimaryKeyValue side pk
                          (null_count (side_table side df_new df_db) pk)))))"
proof (intro conjI impI)
  assume "pks = []"
  then show "\<forall>L sm. sm name \<noteq> None \<longrightarrow>
      split_dataframe L sm df_new df_db pks name = Inl EmptyPrimaryKeyList"
    by (auto simp: split_dataframe_def)
next
  assume a: "pks \<noteq> []
     \<and> \<not> list_all (\<lambda>pk. pk \<in> set (columns df_new) \<and> pk \<in> set (columns df_db)) pks"
  then obtain e where e: "check_columns pks df_new df_db = Some e"
    using check_columns_None [of pks df_new df_db] by auto
  from check_columns_Some [OF e] obtain side pk where
    s: "pk \<in> set pks" "pk \<notin> set (columns (side_table side df_new df_db))"
       "e = MissingPrimaryKeyColumn side pk"
    by blast
  have "\<forall>L sm. sm name \<noteq> None \<longrightarrow>
      split_dataframe L sm df_new df_db pks name = Inl (MissingPrimaryKeyColumn side pk)"
    using a e s(3) by (auto simp: split_dataframe_def split: list.splits)
  with s show "\<exists>side pk. pk \<in> set pks \<and> pk \<notin> set (columns (side_table side df_new df_db))
         \<and> (\<forall>L sm. sm name \<noteq> None \<longrightarrow>
               split_dataframe L sm df_new df_db pks name
                 = Inl (MissingPrimaryKeyColumn side pk))"
    by blast
next
  assume a: "pks \<noteq> []
        \<and> list_all (\<lambda>pk. pk \<in> set (columns df_new) \<and> pk \<in> set (columns df_db)) pks
        \<and> \<not> list_all (\<lambda>pk. null_count df_new pk = 0 \<and> null_count df_db pk = 0) pks"
  then have c: "check_columns pks df_new df_db = None"
    using check_columns_None [of pks df_new df_db] by simp
  from a obtain e where e: "check_nulls pks df_new df_db = Some e"
    using check_nulls_None [of pks df_new df_db] by auto
  from check_nulls_Some [OF e] obtain side pk where
    s: "pk \<in> set pks" "0 < null_count (side_table side df_new df_db) pk"
       "e = NullPrimaryKeyValue side pk (null_count (side_table side df_new df_db) pk)"
    by blast
  have "\<forall>L sm. sm name \<noteq> None \<longrightarrow>
      split_dataframe L sm df_new df_db pks name
        = Inl (NullPrimaryKeyValue side pk (null_count (side_table side df_new df_db) pk))"
    using a c e s(3) by (auto simp: split_dataframe_def split: list.splits)
  with s show "\<exists>side pk. pk \<in> set pks \<and> 0 < null_count (side_table side df_new df_db) pk
         \<and> (\<forall>L sm. sm name \<noteq> None \<longrightarrow>
               split_dataframe L sm df_new df_db pks name
                 = Inl (NullPrimaryKeyValue side pk
                          (null_count (side_table side df_new df_db) pk)))"
    by blast
qed

lemma sample_columns: "columns (sample_table cells) = [''id'', ''edad'']"
  by (simp add: columns_def sample_table_def)

lemma sample_person: "sample_mapping ''person'' \<noteq> None"
  by (simp add: sample_mapping_def)

theorem split_preconditions_fatal_witness:
  "split_dataframe sample_lib sample_mapping
       (sample_table [(VInt 1, VNone)]) (sample_table [(VNone, VInt 2)]) [] ''person''
     = Inl EmptyPrimaryKeyList
   \<and> (\<exists>side. split_dataframe sample_lib sample_mapping
         (sample_table [(VInt 1, VNone)]) (sample_table [(VNone, VInt 2)]) [''zz''] ''person''
       = Inl (MissingPrimaryKeyColumn side ''zz''))
   \<and> (\<exists>side n. 0 < n \<and> split_dataframe sample_lib sample_mapping
         (sample_table [(VInt 1, VNone)]) (sample_table [(VNone, VInt 2)]) [''id''] ''person''
       = Inl (NullPrimaryKeyValue side ''id'' n))"
proof -
  let ?new = "sample_table [(VInt 1, VNone)]" and ?db = "sample_table [(VNone, VInt 2)]"
  have n: "null_count ?new ''id'' = 0" "null_count ?db ''id'' = 1"
    by (simp_all add: null_count_def sample_table_def row_get_def)
  note t = split_preconditions_fatal [of _ "''person''" ?new ?db]
  have 1: "split_dataframe sample_lib sample_mapping ?new ?db [] ''person'' = Inl EmptyPrimaryKeyList"
    using t [of "[]"] sample_person by simp
  have 2: "\<exists>side. split_dataframe sample_lib sample_mapping ?new ?db [''zz''] ''person''
       = Inl (MissingPrimaryKeyColumn side ''zz'')"
    using t [of "[''zz'']"] sample_person by (auto simp: sample_columns)
  have 3: "\<exists>side n. 0 < n \<and> split_dataframe sample_lib sample_mapping ?new ?db [''id''] ''person''
       = Inl (NullPrimaryKeyValue side ''id'' n)"
    using t [of "[''id'']"] sample_person by (auto simp: sample_columns n)
  from 1 2 3 show ?thesis by simp
qed






section \<open>The general case of \<^verbatim>\<open>split_dataframe\<close>\<close>



lemma select_columns:
  assumes "select t cs = Inr kt" and "c \<in> set cs"
  shows "c \<in> set (columns t)"
proof -
  from assms(1) have "filter (\<lambda>c. c \<notin> set (columns t)) cs = []"
    by (auto simp: select_def split: list.splits)
  with assms(2) show ?thesis
    by (auto simp: filter_empty_conv)
qed















subsection \<open>The three outputs\<close>







subsection \<open>Two runs, evaluated\<close>
























subsection \<open>Rows that fail validation\<close>





section \<open>Further worked examples\<close>

text \<open>
  The rules for one field, and the two date texts of the scenario in which a timestamp with
  a zone and a plain date denote the same calendar day.
\<close>

lemma field_equal_examples:
  "field_equal VNone VNone"
  "\<not> field_equal VNone (VInt 1)"
  "field_equal (VDatetime \<lparr>dt_date = \<lparr>d_year = 2021, d_month = 2, d_day = 1\<rparr>, dt_hour = 12,
       dt_minute = 34, dt_second = 56, dt_microsecond = 0, dt_utcoffset = Some 3600000000\<rparr>)
     (VDate \<lparr>d_year = 2021, d_month = 2, d_day = 1\<rparr>)"
  "\<not> field_equal (VDate \<lparr>d_year = 2021, d_month = 2, d_day = 1\<rparr>)
     (VDate \<lparr>d_year = 2021, d_month = 2, d_day = 2\<rparr>)"
  "field_equal (VInt 1) (VFloat (Finite 1))"
  "\<not> field_equal (VFloat NaN) (VFloat NaN)"
  "\<not> field_equal (VStr ''1'') (VInt 1)"
  by (simp_all add: field_equal_def calendar_day_def int_float_eq_def float_eq_def
      unsigned_zero_def)

lemma iso_2021_02_01:
  "sample_fromisoformat ''2021-02-01'' = Some \<lparr>d_year = 2021, d_month = 2, d_day = 1\<rparr>"
proof -
  have m: "match_atoms (sep3 d4 (CHR ''-'') d2 d2) ''2021-02-01''"
    by (simp add: sep3_def d4_def d2_def is_digit_def code_def)
  have i: "int_of_str ''2021'' = Some 2021" "int_of_str ''02'' = Some 2" "int_of_str ''01'' = Some 1"
    using int_of_str_digits [of "''2021''"] int_of_str_digits [of "''02''"]
      int_of_str_digits [of "''01''"]
    by (simp_all add: digit_eval)
  have "date_of_parts ''2021'' ''02'' ''01'' = Inr \<lparr>d_year = 2021, d_month = 2, d_day = 1\<rparr>"
    by (simp add: date_of_parts_def i mk_date_def fits_c_int_def valid_date_def
        days_in_month_def)
  with m show ?thesis
    by (simp add: sample_fromisoformat_def)
qed

lemma fast_path_wins:
  "date_fast_path L v = Inr (Some d) \<Longrightarrow> 0 < n \<Longrightarrow> parse_date_str n L v = Inr (Some d)"
  by (cases n) simp_all

lemma scenario_dates:
  "attempt_cast sample_lib (VStr ''2021-02-01T00:00:00Z'') TDate
     = Inr (VDate \<lparr>d_year = 2021, d_month = 2, d_day = 1\<rparr>)"
  "attempt_cast sample_lib (VStr ''2021-02-01'') TDate
     = Inr (VDate \<lparr>d_year = 2021, d_month = 2, d_day = 1\<rparr>)"
proof -
  have 1: "date_fast_path sample_lib ''2021-02-01T00:00:00Z''
      = Inr (Some \<lparr>d_year = 2021, d_month = 2, d_day = 1\<rparr>)"
    by (simp add: date_fast_path_def part_def sample_lib_def iso_2021_02_01 raising_def
        returning_def swallow_def)
  have 2: "date_fast_path sample_lib ''2021-02-01''
      = Inr (Some \<lparr>d_year = 2021, d_month = 2, d_day = 1\<rparr>)"
    by (simp add: date_fast_path_def sample_lib_def iso_2021_02_01 raising_def
        returning_def swallow_def)
  have l: "0 < lib_recursion_limit sample_lib"
    by (simp add: sample_lib_def)
  show "attempt_cast sample_lib (VStr ''2021-02-01T00:00:00Z'') TDate
     = Inr (VDate \<lparr>d_year = 2021, d_month = 2, d_day = 1\<rparr>)"
    by (simp add: attempt_cast_def isinstance_def parse_date_def fast_path_wins [OF 1 l])
  show "attempt_cast sample_lib (VStr ''2021-02-01'') TDate
     = Inr (VDate \<lparr>d_year = 2021, d_month = 2, d_day = 1\<rparr>)"
    by (simp add: attempt_cast_def isinstance_def parse_date_def fast_path_wins [OF 2 l])
qed


end
